theory Spec2Isabelle
  imports Main "HOL-Library.Sublist"
begin

section \<open>JavaScript values used by the sources\<close>

text \<open>
  Strings are lists of characters. The string methods the sources call are the list
  notions of the library: \<open>s.includes(t)\<close> is \<open>sublist t s\<close>, \<open>s.startsWith(t)\<close> is
  \<open>prefix t s\<close>, \<open>s.endsWith(t)\<close> is \<open>suffix t s\<close>, \<open>s.substr(i, n)\<close> takes \<open>n\<close>
  characters from position \<open>i\<close>.
\<close>

definition str_includes :: "string \<Rightarrow> string \<Rightarrow> bool" where
  "str_includes s t = sublist t s"

definition str_startsWith :: "string \<Rightarrow> string \<Rightarrow> bool" where
  "str_startsWith s t = prefix t s"

definition str_endsWith :: "string \<Rightarrow> string \<Rightarrow> bool" where
  "str_endsWith s t = suffix t s"

definition substr :: "string \<Rightarrow> nat \<Rightarrow> nat \<Rightarrow> string" where
  "substr s i n = take n (drop i s)"

text \<open>\<open>s.split(c)\<close> for a separator of one character; the empty string splits into one
  empty piece, as in JavaScript.\<close>

fun str_split :: "char \<Rightarrow> string \<Rightarrow> string list" where
  "str_split c [] = [] # []"
| "str_split c (x # xs) =
     (if x = c then [] # str_split c xs
      else (case str_split c xs of
              [] \<Rightarrow> [x] # []
            | w # ws \<Rightarrow> (x # w) # ws))"

text \<open>\<open>xs.join(sep)\<close>.\<close>

fun str_join :: "string \<Rightarrow> string list \<Rightarrow> string" where
  "str_join sep [] = []"
| "str_join sep [x] = x"
| "str_join sep (x # y # ys) = x @ sep @ str_join sep (y # ys)"

text \<open>A value that may be \<open>undefined\<close> is an option. A string is truthy when it is defined
  and not empty.\<close>

definition truthy_str :: "string option \<Rightarrow> bool" where
  "truthy_str v = (case v of None \<Rightarrow> False | Some s \<Rightarrow> s \<noteq> [])"

datatype error = Error string | TypeError string | SyntaxError string

fun message :: "error \<Rightarrow> string" where
  "message (Error m) = m"
| "message (TypeError m) = m"
| "message (SyntaxError m) = m"

text \<open>
  What \<open>JSON.parse\<close> yields. A \<open>JObject\<close> lists the own properties of the parsed object,
  each key once. \<open>JNumber n\<close> is the number \<open>n\<close>; the functions below copy numbers,
  test them for zero and print them, and never compute with them.
\<close>

datatype json =
    JNull
  | JBool bool
  | JNumber int
  | JString string
  | JArray "json list"
  | JObject "(string \<times> json) list"

text \<open>\<open>v.key\<close> for a key that no built-in prototype defines: a \<open>TypeError\<close> on \<open>null\<close>,
  the property of an object, \<open>undefined\<close> on everything else.\<close>

definition js_prop :: "json \<Rightarrow> string \<Rightarrow> error + json option" where
  "js_prop v k =
     (case v of
        JNull \<Rightarrow> Inl (TypeError (''Cannot read properties of null (reading '' @ k @ '')''))
      | JObject kvs \<Rightarrow> Inr (map_of kvs k)
      | _ \<Rightarrow> Inr None)"

text \<open>Truthiness of a value.\<close>

definition js_truthy :: "json option \<Rightarrow> bool" where
  "js_truthy v =
     (case v of
        None \<Rightarrow> False
      | Some JNull \<Rightarrow> False
      | Some (JBool b) \<Rightarrow> b
      | Some (JNumber n) \<Rightarrow> n \<noteq> 0
      | Some (JString s) \<Rightarrow> s \<noteq> []
      | Some (JArray _) \<Rightarrow> True
      | Some (JObject _) \<Rightarrow> True)"



fun js_string :: "(int \<Rightarrow> string) \<Rightarrow> json \<Rightarrow> string" where
  "js_string num JNull = ''null''"
| "js_string num (JBool b) = (if b then ''true'' else ''false'')"
| "js_string num (JNumber n) = num n"
| "js_string num (JString s) = s"
| "js_string num (JArray xs) =
     str_join '','' (map (\<lambda>x. if x = JNull then [] else js_string num x) xs)"
| "js_string num (JObject kvs) = ''[object Object]''"

definition js_template :: "(int \<Rightarrow> string) \<Rightarrow> json option \<Rightarrow> string" where
  "js_template num v = (case v of None \<Rightarrow> ''undefined'' | Some j \<Rightarrow> js_string num j)"

text \<open>Destructuring \<open>const {key} = v\<close> of a value that may be \<open>undefined\<close>.\<close>

definition js_destructure :: "json option \<Rightarrow> string \<Rightarrow> error + json option" where
  "js_destructure v k =
     (case v of
        None \<Rightarrow>
          Inl (TypeError (''Cannot destructure property '' @ k @ '' as it is undefined''))
      | Some j \<Rightarrow> js_prop j k)"

text \<open>A value used as an array (\<open>prs.map\<close>).\<close>

definition js_array :: "json \<Rightarrow> error + json list" where
  "js_array v =
     (case v of
        JArray xs \<Rightarrow> Inr xs
      | JNull \<Rightarrow> Inl (TypeError ''Cannot read properties of null (reading map)'')
      | _ \<Rightarrow> Inl (TypeError ''prs.map is not a function''))"

section \<open>The drivers' constructors and the facade's driver selection\<close>

record github =
  gh_repo :: string
  gh_token :: string

record gitlab =
  gl_token :: string
  gl_repo :: string
  detected_base :: "string option"

text \<open>The BitBucket driver class is not among the sources; a facade bound to it is kept as
  the constructor's arguments.\<close>

datatype driver =
    Github github
  | Gitlab gitlab
  | BitBucketCloud string "string option"

definition new_Github :: "string \<Rightarrow> string option \<Rightarrow> error + github" where
  "new_Github repo token =
     (if repo = [] then Inl (Error ''repo not found'')
      else (case token of
              None \<Rightarrow> Inl (Error ''token not found'')
            | Some t \<Rightarrow>
                if t = [] then Inl (Error ''token not found'')
                else Inr \<lparr>gh_repo = repo, gh_token = t\<rparr>))"

definition new_Gitlab :: "string \<Rightarrow> string option \<Rightarrow> error + gitlab" where
  "new_Gitlab repo token =
     (case token of
        None \<Rightarrow> Inl (Error ''token not found'')
      | Some t \<Rightarrow>
          if t = [] then Inl (Error ''token not found'')
          else if repo = [] then Inl (Error ''repo not found'')
          else Inr \<lparr>gl_token = t, gl_repo = repo, detected_base = None\<rparr>)"

definition GITHUB :: string where "GITHUB = ''github''"
definition GITLAB :: string where "GITLAB = ''gitlab''"
definition BB :: string where "BB = ''bitbucket''"

record cml =
  cml_repo :: string
  cml_token :: "string option"
  cml_driver :: "string option"

definition getDriver :: "cml \<Rightarrow> error + driver" where
  "getDriver c =
     (case cml_driver c of
        None \<Rightarrow> Inl (Error ''driver not set'')
      | Some d \<Rightarrow>
          if d = [] then Inl (Error ''driver not set'')
          else if d = GITHUB then map_sum id Github (new_Github (cml_repo c) (cml_token c))
          else if d = GITLAB then map_sum id Gitlab (new_Gitlab (cml_repo c) (cml_token c))
          else if d = BB then Inr (BitBucketCloud (cml_repo c) (cml_token c))
          else Inl (Error (''driver '' @ d @ '' unknown!'')))"

section \<open>Effects: a state and an error\<close>

text \<open>
  An asynchronous method is a function from the state before the call to its outcome and
  the state after it: \<open>Inl e\<close> is a rejected promise (a \<open>throw\<close>), \<open>Inr v\<close> a resolved one.
\<close>

type_synonym ('a, 's) se = "'s \<Rightarrow> (error + 'a) \<times> 's"

definition ret :: "'a \<Rightarrow> ('a, 's) se" where
  "ret v s = (Inr v, s)"

definition throw :: "error \<Rightarrow> ('a, 's) se" where
  "throw e s = (Inl e, s)"

definition lift :: "error + 'a \<Rightarrow> ('a, 's) se" where
  "lift r s = (r, s)"

definition bind :: "('a, 's) se \<Rightarrow> ('a \<Rightarrow> ('b, 's) se) \<Rightarrow> ('b, 's) se" where
  "bind m f s = (case m s of (Inl e, s') \<Rightarrow> (Inl e, s') | (Inr v, s') \<Rightarrow> f v s')"

text \<open>\<open>xs.filter(p)\<close> and \<open>xs.map(f)\<close> for a callback that may throw.\<close>

fun filterE :: "('a \<Rightarrow> error + bool) \<Rightarrow> 'a list \<Rightarrow> error + 'a list" where
  "filterE p [] = Inr []"
| "filterE p (x # xs) =
     (case p x of
        Inl e \<Rightarrow> Inl e
      | Inr b \<Rightarrow> (case filterE p xs of
                   Inl e \<Rightarrow> Inl e
                 | Inr ys \<Rightarrow> Inr (if b then x # ys else ys)))"

fun mapE :: "('a \<Rightarrow> error + 'b) \<Rightarrow> 'a list \<Rightarrow> error + 'b list" where
  "mapE f [] = Inr []"
| "mapE f (x # xs) =
     (case f x of
        Inl e \<Rightarrow> Inl e
      | Inr y \<Rightarrow> (case mapE f xs of Inl e \<Rightarrow> Inl e | Inr ys \<Rightarrow> Inr (y # ys)))"

section \<open>The facade (class CML)\<close>

subsection \<open>The world the facade runs in\<close>

record pr_opts =
  pr_source :: string
  pr_target :: string
  pr_title :: string
  pr_description :: string

text \<open>One entry of \<open>driver.prs()\<close>: the normalised \<open>{url, source, target}\<close>, each field
  the value the driver read off the platform's entry, \<open>undefined\<close> when the entry has no
  such key.\<close>

record pull_request =
  url :: "json option"
  source :: "json option"
  target :: "json option"

text \<open>The callback of \<open>prs.map\<close> in \<open>Github.prs\<close>:
  \<open>const {htmlUrl: url, head: {ref: source}, base: {ref: target}} = pr\<close>.\<close>

definition github_pr :: "json \<Rightarrow> error + pull_request" where
  "github_pr pr =
     (case js_prop pr ''htmlUrl'' of
        Inl e \<Rightarrow> Inl e
      | Inr u \<Rightarrow>
          (case js_prop pr ''head'' of
             Inl e \<Rightarrow> Inl e
           | Inr head \<Rightarrow>
               (case js_destructure head ''ref'' of
                  Inl e \<Rightarrow> Inl e
                | Inr s \<Rightarrow>
                    (case js_prop pr ''base'' of
                       Inl e \<Rightarrow> Inl e
                     | Inr base \<Rightarrow>
                         (case js_destructure base ''ref'' of
                            Inl e \<Rightarrow> Inl e
                          | Inr t \<Rightarrow> Inr \<lparr>url = u, source = s, target = t\<rparr>)))))"

text \<open>The callback of \<open>prs.map\<close> in \<open>Gitlab.prs\<close>:
  \<open>const {webUrl: url, source_branch: source, target_branch: target} = pr\<close>.\<close>

definition gitlab_pr :: "json \<Rightarrow> error + pull_request" where
  "gitlab_pr pr =
     (case js_prop pr ''webUrl'' of
        Inl e \<Rightarrow> Inl e
      | Inr u \<Rightarrow>
          (case js_prop pr ''source_branch'' of
             Inl e \<Rightarrow> Inl e
           | Inr s \<Rightarrow>
               (case js_prop pr ''target_branch'' of
                  Inl e \<Rightarrow> Inl e
                | Inr t \<Rightarrow> Inr \<lparr>url = u, source = s, target = t\<rparr>)))"

text \<open>What changes the local checkout, the remote or the platform.\<close>

datatype effect = Exec string | DriverPrCreate driver pr_opts

text \<open>
  The process environment, and the answers of the collaborators that are not among the
  sources (\<open>exec\<close> of \<open>utils\<close>, \<open>simple-git\<close>, \<open>globby\<close>, the platform behind
  \<open>driver.prs()\<close> and \<open>driver.prCreate()\<close>). An answer depends on the \<open>history\<close>: the
  effects performed so far. Queries (\<open>git rev-parse HEAD\<close>, \<open>git branch --show-current\<close>,
  \<open>git ls-remote\<close>, \<open>git.status()\<close>, \<open>globby\<close>, \<open>driver.prs()\<close>) leave the history as it
  is; every other command and \<open>driver.prCreate()\<close> extend it.
  \<open>pull_request_head_sha\<close> is \<open>github.context.payload.pull_request.head.sha\<close>;
  \<open>bitbucket_sha\<close> and \<open>bitbucket_branch\<close> are the getters of the BitBucket driver;
  \<open>remote_with_credentials repo username password\<close> is the address \<open>new URL(repo)\<close>
  prints once its \<open>password\<close> and \<open>username\<close> are set.
  \<open>pulls_answer h d\<close> is the data the platform sends for the list call of a GitHub or
  GitLab driver \<open>d\<close> (the \<open>data\<close> of \<open>pulls.list({owner, repo, state})\<close>, the JSON of
  \<open>GET /projects/<path>/merge_requests?state=opened\<close>), and \<open>create_answer h d opts\<close> the
  data it sends for the create call (\<open>pulls.create\<close>, \<open>POST /projects/<path>/merge_requests\<close>);
  \<open>Inl\<close> when the call rejects, or when \<open>ownerRepo\<close>, \<open>octokit\<close> or the discovery of the
  API base throws before it. What the drivers read off the data is in \<open>driver_prs\<close> and
  \<open>driver_prCreate\<close> below. \<open>bitbucket_prs\<close> and \<open>bitbucket_prCreate\<close> are the two methods
  of the BitBucket driver.
\<close>

record world =
  GITHUB_SHA :: "string option"
  GITHUB_REF :: "string option"
  GITHUB_EVENT_NAME :: "string option"
  pull_request_head_sha :: "string option"
  CI_COMMIT_SHA :: "string option"
  CI_BUILD_REF_NAME :: "string option"
  GITLAB_USER_NAME :: "string option"
  CI :: "string option"
  bitbucket_sha :: "string option"
  bitbucket_branch :: "string option"
  remote_with_credentials :: "string \<Rightarrow> string option \<Rightarrow> string option \<Rightarrow> error + string"
  history :: "effect list"
  exec_answer :: "effect list \<Rightarrow> string \<Rightarrow> error + string"
  status_answer :: "effect list \<Rightarrow> error + string list"
  globby_answer :: "effect list \<Rightarrow> string list \<Rightarrow> error + string list"
  pulls_answer :: "effect list \<Rightarrow> driver \<Rightarrow> error + json"
  create_answer :: "effect list \<Rightarrow> driver \<Rightarrow> pr_opts \<Rightarrow> error + json"
  bitbucket_prs :: "effect list \<Rightarrow> error + pull_request list"
  bitbucket_prCreate :: "effect list \<Rightarrow> pr_opts \<Rightarrow> error + json option"
  console :: "string list"

definition exec_query :: "string \<Rightarrow> (string, world) se" where
  "exec_query cmd w = (exec_answer w (history w) cmd, w)"

definition exec_effect :: "string \<Rightarrow> (string, world) se" where
  "exec_effect cmd w = (exec_answer w (history w) cmd, w\<lparr>history := history w @ [Exec cmd]\<rparr>)"

definition git_status :: "(string list, world) se" where
  "git_status w = (status_answer w (history w), w)"

definition globby :: "string list \<Rightarrow> (string list, world) se" where
  "globby gs w = (globby_answer w (history w) gs, w)"

text \<open>\<open>driver.prs()\<close>: the entries of the platform's data, each mapped by the driver's
  callback.\<close>

definition driver_prs :: "driver \<Rightarrow> (pull_request list, world) se" where
  "driver_prs d w =
     (case d of
        Github _ \<Rightarrow>
          (case pulls_answer w (history w) d of
             Inl e \<Rightarrow> Inl e
           | Inr data \<Rightarrow>
               (case js_array data of Inl e \<Rightarrow> Inl e | Inr prs \<Rightarrow> mapE github_pr prs))
      | Gitlab _ \<Rightarrow>
          (case pulls_answer w (history w) d of
             Inl e \<Rightarrow> Inl e
           | Inr data \<Rightarrow>
               (case js_array data of Inl e \<Rightarrow> Inl e | Inr prs \<Rightarrow> mapE gitlab_pr prs))
      | BitBucketCloud _ _ \<Rightarrow> bitbucket_prs w (history w),
      w)"

text \<open>\<open>driver.prCreate(opts)\<close>: \<open>Github.prCreate\<close> returns the \<open>htmlUrl\<close> of the data,
  \<open>Gitlab.prCreate\<close> its \<open>webUrl\<close>.\<close>

definition driver_prCreate :: "driver \<Rightarrow> pr_opts \<Rightarrow> (json option, world) se" where
  "driver_prCreate d po w =
     (case d of
        Github _ \<Rightarrow>
          (case create_answer w (history w) d po of
             Inl e \<Rightarrow> Inl e
           | Inr data \<Rightarrow> js_prop data ''htmlUrl'')
      | Gitlab _ \<Rightarrow>
          (case create_answer w (history w) d po of
             Inl e \<Rightarrow> Inl e
           | Inr data \<Rightarrow> js_prop data ''webUrl'')
      | BitBucketCloud _ _ \<Rightarrow> bitbucket_prCreate w (history w) po,
      w\<lparr>history := history w @ [DriverPrCreate d po]\<rparr>)"

definition console_log :: "string \<Rightarrow> (unit, world) se" where
  "console_log m w = (Inr (), w\<lparr>console := console w @ [m]\<rparr>)"

subsection \<open>The drivers' getters\<close>

definition driver_sha :: "world \<Rightarrow> driver \<Rightarrow> string option" where
  "driver_sha w d =
     (case d of
        Github _ \<Rightarrow>
          if GITHUB_EVENT_NAME w = Some ''pull_request'' then pull_request_head_sha w
          else GITHUB_SHA w
      | Gitlab _ \<Rightarrow> CI_COMMIT_SHA w
      | BitBucketCloud _ _ \<Rightarrow> bitbucket_sha w)"

definition driver_branch :: "world \<Rightarrow> driver \<Rightarrow> string option" where
  "driver_branch w d =
     (case d of
        Github _ \<Rightarrow> GITHUB_REF w
      | Gitlab _ \<Rightarrow> CI_BUILD_REF_NAME w
      | BitBucketCloud _ _ \<Rightarrow> bitbucket_branch w)"

subsection \<open>headSha, branch\<close>

definition headSha :: "cml \<Rightarrow> (string, world) se" where
  "headSha c =
     bind (lift (getDriver c)) (\<lambda>d w.
       (case driver_sha w d of
          None \<Rightarrow> exec_query ''git rev-parse HEAD'' w
        | Some sha \<Rightarrow> if sha = [] then exec_query ''git rev-parse HEAD'' w else ret sha w))"

definition branch :: "cml \<Rightarrow> (string, world) se" where
  "branch c =
     bind (lift (getDriver c)) (\<lambda>d w.
       (case driver_branch w d of
          None \<Rightarrow> exec_query ''git branch --show-current'' w
        | Some b \<Rightarrow> if b = [] then exec_query ''git branch --show-current'' w else ret b w))"

subsection \<open>commentCreate\<close>

record comment_opts =
  report :: string
  commitSha :: "string option"
  rmWatermark :: bool

definition WATERMARK :: string where
  "WATERMARK =
     '' \<newline>\<newline>  ![CML watermark](https://raw.githubusercontent.com/iterative/cml/master/assets/watermark.svg)''"

text \<open>The result is the call handed to the driver: the driver and the options of its
  \<open>commentCreate\<close>.\<close>

definition commentCreate :: "cml \<Rightarrow> comment_opts \<Rightarrow> (driver \<times> comment_opts, world) se" where
  "commentCreate c opts =
     bind (case commitSha opts of None \<Rightarrow> headSha c | Some s \<Rightarrow> ret s) (\<lambda>sha.
       let watermark = (if rmWatermark opts then [] else WATERMARK);
           rep = report opts @ watermark
       in bind (lift (getDriver c)) (\<lambda>d.
            ret (d, opts\<lparr>report := rep, commitSha := Some sha\<rparr>)))"

subsection \<open>prCreate\<close>

definition GIT_USER_NAME :: string where "GIT_USER_NAME = ''Olivaw[bot]''"
definition GIT_USER_EMAIL :: string where "GIT_USER_EMAIL = ''olivaw@iterative.ai''"
definition GIT_REMOTE :: string where "GIT_REMOTE = ''origin''"

record prCreate_opts =
  opt_remote :: "string option"
  opt_userEmail :: "string option"
  opt_userName :: "string option"
  opt_globs :: "string list option"
  opt_md :: bool

definition quoted :: "string \<Rightarrow> string" where
  "quoted s = [CHR 0x22] @ s @ [CHR 0x22]"

text \<open>\<open>num\<close> prints a number, should the url be one.\<close>

definition renderPr :: "(int \<Rightarrow> string) \<Rightarrow> cml \<Rightarrow> bool \<Rightarrow> json option \<Rightarrow> json option" where
  "renderPr num c md u =
     (if md then
        Some (JString (''[CML'' @ [CHR 0x27] @ ''s '' @
              (if cml_driver c = Some GITLAB then ''Merge'' else ''Pull'') @
              '' Request]('' @ js_template num u @ '')''))
      else u)"

definition shaShort :: "string \<Rightarrow> string" where
  "shaShort sha = substr sha 0 8"

definition source_branch :: "string \<Rightarrow> string \<Rightarrow> string" where
  "source_branch tgt sha = tgt @ ''-cml-pr-'' @ shaShort sha"

definition ls_remote :: "string \<Rightarrow> string \<Rightarrow> string" where
  "ls_remote remote src =
     ''git ls-remote $(git config --get remote.'' @ remote @ ''.url) '' @ src"

text \<open>The callback of \<open>prs.find\<close>:
  \<open>source.endsWith(pr.source) && target.endsWith(pr.target)\<close>; \<open>endsWith\<close> turns its
  argument into a string.\<close>

definition pr_matches :: "(int \<Rightarrow> string) \<Rightarrow> string \<Rightarrow> string \<Rightarrow> pull_request \<Rightarrow> bool" where
  "pr_matches num src tgt pr =
     (str_endsWith src (js_template num (source pr))
      \<and> str_endsWith tgt (js_template num (target pr)))"

text \<open>The steps of the branch that is taken when the remote has no \<open>source\<close> branch yet.\<close>

definition push_branch ::
  "cml \<Rightarrow> driver \<Rightarrow> string \<Rightarrow> string \<Rightarrow> string \<Rightarrow> string list \<Rightarrow> string \<Rightarrow> string \<Rightarrow>
   string \<Rightarrow> (unit, world) se" where
  "push_branch c d remote userEmail userName paths sha tgt src =
     bind (exec_effect (''git config --local user.email '' @ quoted userEmail)) (\<lambda>_.
     bind (exec_effect (''git config --local user.name '' @ quoted userName)) (\<lambda>_.
     bind (\<lambda>w.
            if truthy_str (CI w) \<and> cml_driver c = Some GITLAB then
              bind (lift (remote_with_credentials w (cml_repo c) (GITLAB_USER_NAME w)
                            (cml_token c))) (\<lambda>repo.
              bind (exec_effect (''git remote rm '' @ remote)) (\<lambda>_.
              bind (exec_effect (''git remote add '' @ remote @ '' '' @ quoted (repo @ ''.git'')))
                (\<lambda>_. ret ()))) w
            else ret () w) (\<lambda>_.
     bind (exec_effect (''git checkout -B '' @ tgt @ '' '' @ sha)) (\<lambda>_.
     bind (exec_effect (''git checkout -b '' @ src)) (\<lambda>_.
     bind (exec_effect (''git add '' @ str_join '' '' paths)) (\<lambda>_.
     bind (exec_effect (''git commit -m '' @ quoted (''CML PR for '' @ shaShort sha @ '' [skip ci]'')))
       (\<lambda>_.
     bind (exec_effect (''git push --set-upstream '' @ remote @ '' '' @ src)) (\<lambda>_.
     ret ()))))))))"

definition create_pr ::
  "(int \<Rightarrow> string) \<Rightarrow> cml \<Rightarrow> driver \<Rightarrow> bool \<Rightarrow> string \<Rightarrow> string \<Rightarrow> string \<Rightarrow>
   (json option, world) se" where
  "create_pr num c d md sha tgt src =
     (let title = ''CML PR for '' @ tgt @ '' '' @ shaShort sha;
          description = ''\<newline>Automated commits for '' @ cml_repo c @ ''/commit/'' @ sha @
                        '' created by CML.\<newline>  ''
      in bind (driver_prCreate d
                 \<lparr>pr_source = src, pr_target = tgt, pr_title = title,
                  pr_description = description\<rparr>) (\<lambda>u.
         ret (renderPr num c md u)))"

text \<open>The result \<open>None\<close> is \<open>undefined\<close>: that of a bare \<open>return\<close>, or a url the driver
  found none of. \<open>num\<close> prints a number where a value is turned into a string.\<close>

definition prCreate ::
  "(int \<Rightarrow> string) \<Rightarrow> cml \<Rightarrow> prCreate_opts \<Rightarrow> (json option, world) se" where
  "prCreate num c opts =
     bind (lift (getDriver c)) (\<lambda>d.
     let remote = (case opt_remote opts of None \<Rightarrow> GIT_REMOTE | Some r \<Rightarrow> r);
         userEmail = (case opt_userEmail opts of None \<Rightarrow> GIT_USER_EMAIL | Some e \<Rightarrow> e);
         userName = (case opt_userName opts of None \<Rightarrow> GIT_USER_NAME | Some n \<Rightarrow> n);
         globs = (case opt_globs opts of None \<Rightarrow> [''dvc.lock'', ''.gitignore''] | Some g \<Rightarrow> g);
         md = opt_md opts
     in
     bind git_status (\<lambda>files.
     if files = [] then
       bind (console_log ''No files changed. Nothing to do.'') (\<lambda>_. ret None)
     else
     bind (globby globs) (\<lambda>globbed.
     let paths = filter (\<lambda>path. path \<in> set files) globbed in
     if paths = [] then
       bind (console_log ''Input files are not affected. Nothing to do.'') (\<lambda>_. ret None)
     else
     bind (headSha c) (\<lambda>sha.
     bind (branch c) (\<lambda>tgt.
     let src = source_branch tgt sha in
     bind (exec_query (ls_remote remote src)) (\<lambda>out.
     let branchExists = str_includes out src in
     if branchExists then
       bind (driver_prs d) (\<lambda>prs.
       (case find (pr_matches num src tgt) prs of
          None \<Rightarrow> create_pr num c d md sha tgt src
        | Some pr \<Rightarrow>
            if js_truthy (url pr) then ret (renderPr num c md (url pr))
            else create_pr num c d md sha tgt src))
     else
       bind (push_branch c d remote userEmail userName paths sha tgt src) (\<lambda>_.
       create_pr num c d md sha tgt src)))))))"

section \<open>The log normaliser (CML.parseRunnerLog)\<close>

text \<open>A method of strings called on \<open>msg\<close>: a \<open>TypeError\<close> unless \<open>msg\<close> is a string.\<close>

definition as_string :: "json option \<Rightarrow> error + string" where
  "as_string v =
     (case v of
        Some (JString s) \<Rightarrow> Inr s
      | _ \<Rightarrow> Inl (TypeError ''msg is not a string''))"

record log_event =
  level :: string
  time :: string
  log_repo :: string
  job :: "json option"
  status :: "string option"
  success :: "bool option"

text \<open>The two blocks of the \<open>try\<close>. \<open>None\<close> from a block: it returned nothing, and
  control goes on behind it.\<close>

definition github_block :: "log_event \<Rightarrow> string \<Rightarrow> log_event option" where
  "github_block log data =
     (if str_includes data ''Running job'' then
        Some (log\<lparr>job := Some (JString []), status := Some ''job_started''\<rparr>)
      else if str_includes data ''Job'' \<and> str_includes data ''completed with result'' then
        (let ok = str_endsWith data ''Succeeded'' in
         Some (log\<lparr>job := Some (JString []), status := Some ''job_ended'',
                   success := Some ok, level := (if ok then ''info'' else ''error'')\<rparr>))
      else if str_includes data ''Listening for Jobs'' then
        Some (log\<lparr>status := Some ''ready''\<rparr>)
      else None)"

text \<open>\<open>parse\<close> is \<open>JSON.parse\<close>; \<open>None\<close>: it throws a \<open>SyntaxError\<close>.\<close>

definition gitlab_block ::
  "(string \<Rightarrow> json option) \<Rightarrow> log_event \<Rightarrow> string \<Rightarrow> error + log_event option" where
  "gitlab_block parse log data =
     (case parse data of
        None \<Rightarrow> Inl (SyntaxError ''Unexpected token in JSON'')
      | Some v \<Rightarrow>
          (case js_prop v ''msg'' of
             Inl e \<Rightarrow> Inl e
           | Inr msg \<Rightarrow>
               (case js_prop v ''job'' of
                  Inl e \<Rightarrow> Inl e
                | Inr jb \<Rightarrow>
                    (case as_string msg of
                       Inl e \<Rightarrow> Inl e
                     | Inr m \<Rightarrow>
                         if str_endsWith m ''received'' then
                           Inr (Some (log\<lparr>job := jb, status := Some ''job_started''\<rparr>))
                         else if str_startsWith m ''Job failed'' \<or>
                                 str_startsWith m ''Job succeeded'' then
                           (let ok = \<not> str_startsWith m ''Job failed'' in
                            Inr (Some (log\<lparr>job := jb, status := Some ''job_ended'',
                                           success := Some ok,
                                           level := (if ok then ''info'' else ''error'')\<rparr>)))
                         else if str_includes m ''Starting runner for'' then
                           Inr (Some (log\<lparr>status := Some ''ready''\<rparr>))
                         else Inr None))))"

text \<open>The body of the \<open>try\<close>; \<open>now\<close> is \<open>new Date().toISOString()\<close>.\<close>

definition parseRunnerLog_try ::
  "(string \<Rightarrow> json option) \<Rightarrow> string \<Rightarrow> cml \<Rightarrow> string \<Rightarrow> error + log_event option" where
  "parseRunnerLog_try parse now c data =
     (let log = \<lparr>level = ''info'', time = now, log_repo = cml_repo c, job = None,
                 status = None, success = None\<rparr>
      in
      case (if cml_driver c = Some GITHUB then github_block log data else None) of
        Some ev \<Rightarrow> Inr (Some ev)
      | None \<Rightarrow>
          if cml_driver c = Some GITLAB then gitlab_block parse log data
          else Inr None)"

text \<open>The method: the state is the console. \<open>data\<close> is \<open>opts.data\<close>, \<open>None\<close> when the
  caller gave none.\<close>

definition parseRunnerLog ::
  "(string \<Rightarrow> json option) \<Rightarrow> string \<Rightarrow> cml \<Rightarrow> string option \<Rightarrow> (log_event option, string list) se"
  where
  "parseRunnerLog parse now c data =
     (case data of
        None \<Rightarrow> ret None
      | Some d \<Rightarrow>
          if d = [] then ret None
          else (case parseRunnerLog_try parse now c d of
                  Inr r \<Rightarrow> ret r
                | Inl err \<Rightarrow>
                    (\<lambda>out. (Inr None, out @ [''Failed parsing log: '' @ message err]))))"

section \<open>The GitHub driver: runners\<close>

text \<open>What \<open>new URL(s)\<close> gives; the parser itself is a built-in and a field of the worlds
  below (\<open>None\<close>: it throws).\<close>

record url_parts =
  origin :: string
  host :: string
  pathname :: string

record gh_label =
  label_name :: string

record gh_runner =
  runner_id :: int
  runner_name :: string
  runner_labels :: "gh_label list"

record runner_ref =
  ref_id :: int
  ref_name :: string

text \<open>The calls of the Octokit client, with the values of the arguments the driver passes
  under the keys \<open>owner\<close> and \<open>repo\<close>, or \<open>org\<close>, and \<open>per_page\<close> or \<open>runnerId\<close>:
  \<open>DeleteSelfHostedRunnerFromRepo owner repo i\<close> is
  \<open>actions.deleteSelfHostedRunnerFromRepo({owner, repo, runnerId: i})\<close>, and
  \<open>DeleteSelfHostedRunnerFromOrg owner i\<close> is
  \<open>actions.deleteSelfHostedRunnerFromOrg({org: owner, runnerId: i})\<close>. What the client
  makes of a call is the platform's part.\<close>

datatype gh_call =
    ListSelfHostedRunnersForRepo "string option" string nat
  | ListSelfHostedRunnersForOrg "string option" nat
  | DeleteSelfHostedRunnerFromRepo "string option" string int
  | DeleteSelfHostedRunnerFromOrg "string option" int

text \<open>The platform answers a call made through a client with a given \<open>baseUrl\<close> (\<open>None\<close>:
  the client's default); \<open>gh_calls\<close> lists the calls made.\<close>

record gh_world =
  gh_new_URL :: "string \<Rightarrow> url_parts option"
  GITHUB_REPOSITORY :: "string option"
  runners_answer :: "string option \<Rightarrow> gh_call \<Rightarrow> error + gh_runner list"
  delete_answer :: "string option \<Rightarrow> gh_call \<Rightarrow> error + unit"
  gh_calls :: "(string option \<times> gh_call) list"

definition first_two :: "string list \<Rightarrow> string option \<times> string option" where
  "first_two xs =
     (case xs of
        [] \<Rightarrow> (None, None)
      | a # ys \<Rightarrow> (case ys of [] \<Rightarrow> (Some a, None) | b # _ \<Rightarrow> (Some a, Some b)))"

definition env_ownerRepo :: "gh_world \<Rightarrow> string option \<times> string option" where
  "env_ownerRepo w =
     (case GITHUB_REPOSITORY w of
        None \<Rightarrow> (None, None)
      | Some r \<Rightarrow> if r = [] then (None, None) else first_two (str_split CHR ''/'' r))"

definition ownerRepo :: "string option \<Rightarrow> (string option \<times> string option, gh_world) se" where
  "ownerRepo uri w =
     (case uri of
        None \<Rightarrow> (Inr (env_ownerRepo w), w)
      | Some u \<Rightarrow>
          if u = [] then (Inr (env_ownerRepo w), w)
          else (case gh_new_URL w u of
                  None \<Rightarrow> (Inl (TypeError ''Invalid URL''), w)
                | Some parts \<Rightarrow>
                    (Inr (first_two (str_split CHR ''/'' (drop 1 (pathname parts)))), w)))"

text \<open>\<open>octokit(token, repo)\<close>: the result is the client's \<open>baseUrl\<close>.\<close>

definition octokit :: "string \<Rightarrow> string \<Rightarrow> (string option, gh_world) se" where
  "octokit token repo w =
     (if token = [] then (Inl (Error ''token not found''), w)
      else if \<not> str_includes repo ''github.com'' then
        (case gh_new_URL w repo of
           None \<Rightarrow> (Inl (TypeError ''Invalid URL''), w)
         | Some parts \<Rightarrow> (Inr (Some (''https://'' @ host parts @ ''/api/v3'')), w))
      else (Inr None, w))"

definition gh_list :: "string option \<Rightarrow> gh_call \<Rightarrow> (gh_runner list, gh_world) se" where
  "gh_list base call w = (runners_answer w base call, w\<lparr>gh_calls := gh_calls w @ [(base, call)]\<rparr>)"


definition github_getRunners :: "github \<Rightarrow> (gh_runner list, gh_world) se" where
  "github_getRunners g =
     bind (ownerRepo (Some (gh_repo g))) (\<lambda>(owner, repo).
     bind (octokit (gh_token g) (gh_repo g)) (\<lambda>base.
       (case repo of
          Some r \<Rightarrow> gh_list base (ListSelfHostedRunnersForRepo owner r 100)
        | None \<Rightarrow> gh_list base (ListSelfHostedRunnersForOrg owner 100))))"

definition to_ref :: "gh_runner \<Rightarrow> runner_ref" where
  "to_ref r = \<lparr>ref_id = runner_id r, ref_name = runner_name r\<rparr>"

definition github_runnerByName :: "github \<Rightarrow> string \<Rightarrow> (runner_ref option, gh_world) se" where
  "github_runnerByName g name =
     bind (github_getRunners g) (\<lambda>runners.
       (case filter (\<lambda>runner. runner_name runner = name) runners of
          [] \<Rightarrow> ret None
        | runner # _ \<Rightarrow> ret (Some (to_ref runner))))"

definition has_labels :: "string \<Rightarrow> gh_runner \<Rightarrow> bool" where
  "has_labels labels runner =
     list_all (\<lambda>label. label \<in> set (map label_name (runner_labels runner)))
       (str_split CHR '','' labels)"

definition github_runnersByLabels :: "github \<Rightarrow> string \<Rightarrow> (runner_ref list, gh_world) se" where
  "github_runnersByLabels g labels =
     bind (github_getRunners g) (\<lambda>runners.
       ret (map to_ref (filter (has_labels labels) runners)))"



definition github_upload :: "github \<Rightarrow> 'o \<Rightarrow> ('r, gh_world) se" where
  "github_upload g opts = throw (Error ''Github does not support publish!'')"

definition github_registerRunner :: "github \<Rightarrow> 'o \<Rightarrow> ('r, gh_world) se" where
  "github_registerRunner g opts = throw (Error ''Github does not support registerRunner!'')"

section \<open>The GitLab driver: API base discovery and runners\<close>

record http_request =
  req_method :: string
  req_url :: string
  req_token :: string

text \<open>A response of \<open>fetch\<close>: \<open>json_body\<close> is what \<open>response.json()\<close> resolves to, or the
  error it rejects with.\<close>

record http_response =
  status_code :: nat
  statusText :: string
  json_body :: "error + json"

datatype gl_result = Raw http_response | Json json

text \<open>The network answers a request (\<open>Inl\<close>: \<open>fetch\<close> rejects); \<open>fetched\<close> lists the
  requests sent.\<close>

record gl_world =
  gl_new_URL :: "string \<Rightarrow> url_parts option"
  fetch_answer :: "http_request \<Rightarrow> error + http_response"
  fetched :: "http_request list"

text \<open>The state of a method of the driver: the instance (with its \<open>_detected_base\<close>) and
  the world.\<close>

type_synonym gl_state = "gitlab \<times> gl_world"

definition API_VER :: string where "API_VER = ''v4''"

text \<open>\<open>request\<close> given a \<open>url\<close> and no \<open>endpoint\<close>.\<close>

definition request_url :: "string \<Rightarrow> string \<Rightarrow> bool \<Rightarrow> (gl_result, gl_state) se" where
  "request_url u method raw = (\<lambda>(g, w).
     if u = [] then (Inl (Error ''Gitlab API endpoint not found''), (g, w))
     else
       (let rq = \<lparr>req_method = method, req_url = u, req_token = gl_token g\<rparr>;
            w' = w\<lparr>fetched := fetched w @ [rq]\<rparr>
        in case fetch_answer w rq of
             Inl e \<Rightarrow> (Inl e, (g, w'))
           | Inr response \<Rightarrow>
               if status_code response > 300 then (Inl (Error (statusText response)), (g, w'))
               else if raw then (Inr (Raw response), (g, w'))
               else (case json_body response of
                       Inl e \<Rightarrow> (Inl e, (g, w'))
                     | Inr j \<Rightarrow> (Inr (Json j), (g, w')))))"

text \<open>One callback of the \<open>map\<close> in \<open>repoBase\<close>: the \<open>path\<close> when the version endpoint
  under it answers with a truthy \<open>version\<close>, \<open>undefined\<close> otherwise; an error is swallowed.\<close>

definition probe :: "string \<Rightarrow> gl_state \<Rightarrow> string option \<times> gl_state" where
  "probe path s =
     (case request_url (path @ ''/api/'' @ API_VER @ ''/version'') ''GET'' False s of
        (Inr (Json j), s') \<Rightarrow>
          (case js_prop j ''version'' of
             Inr v \<Rightarrow> if js_truthy v then (Some path, s') else (None, s')
           | Inl _ \<Rightarrow> (None, s'))
      | (_, s') \<Rightarrow> (None, s'))"

fun probe_all :: "string list \<Rightarrow> gl_state \<Rightarrow> string option list \<times> gl_state" where
  "probe_all [] s = ([], s)"
| "probe_all (p # ps) s =
     (case probe p s of (r, s') \<Rightarrow> (case probe_all ps s' of (rs, s'') \<Rightarrow> (r # rs, s'')))"

text \<open>The paths probed: the origin followed by the first \<open>index\<close> segments of the path, for
  every index of the array of segments.\<close>

definition segments :: "string \<Rightarrow> string list" where
  "segments path = filter (\<lambda>seg. seg \<noteq> []) (str_split CHR ''/'' path)"

definition candidates :: "url_parts \<Rightarrow> string list" where
  "candidates u =
     map (\<lambda>index. str_join ''/'' (origin u # take index (segments (pathname u))))
       [0 ..< length (segments (pathname u))]"

definition repoBase :: "(string, gl_state) se" where
  "repoBase = (\<lambda>(g, w).
     (case (if truthy_str (detected_base g) then detected_base g else None) of
        Some cached \<Rightarrow> (Inr cached, (g, w))
      | None \<Rightarrow>
          (case gl_new_URL w (gl_repo g) of
             None \<Rightarrow> (Inl (TypeError ''Invalid URL''), (g, w))
           | Some u \<Rightarrow>
               (case probe_all (candidates u) (g, w) of
                  (possibleBases, (g', w')) \<Rightarrow>
                    (case find truthy_str possibleBases of
                       Some (Some base) \<Rightarrow> (Inr base, (g'\<lparr>detected_base := Some base\<rparr>, w'))
                     | _ \<Rightarrow>
                         (Inl (Error ''GitLab API not found''),
                          (g'\<lparr>detected_base := None\<rparr>, w')))))))"

text \<open>\<open>request\<close> given an \<open>endpoint\<close>.\<close>

definition request :: "string \<Rightarrow> string \<Rightarrow> bool \<Rightarrow> (gl_result, gl_state) se" where
  "request endpoint method raw =
     (if endpoint \<noteq> [] then
        bind repoBase (\<lambda>base. request_url (base @ ''/api/'' @ API_VER @ endpoint) method raw)
      else throw (Error ''Gitlab API endpoint not found''))"

text \<open>The answer of \<open>request\<close> used as an array (\<open>runners.filter\<close>, \<open>runners.map\<close>).\<close>

definition as_array :: "gl_result \<Rightarrow> error + json list" where
  "as_array r =
     (case r of
        Json (JArray xs) \<Rightarrow> Inr xs
      | Json JNull \<Rightarrow> Inl (TypeError ''Cannot read properties of null'')
      | _ \<Rightarrow> Inl (TypeError ''runners.filter is not a function''))"

text \<open>\<open>runner.name === name || runner.description === name\<close>.\<close>

definition name_matches :: "string \<Rightarrow> json \<Rightarrow> error + bool" where
  "name_matches name runner =
     (case js_prop runner ''name'' of
        Inl e \<Rightarrow> Inl e
      | Inr n \<Rightarrow>
          if n = Some (JString name) then Inr True
          else (case js_prop runner ''description'' of
                  Inl e \<Rightarrow> Inl e
                | Inr d \<Rightarrow> Inr (d = Some (JString name))))"

record gl_runner_ref =
  gl_ref_id :: "json option"
  gl_ref_name :: "json option"

definition gl_to_ref :: "json \<Rightarrow> error + gl_runner_ref" where
  "gl_to_ref runner =
     (case js_prop runner ''id'' of
        Inl e \<Rightarrow> Inl e
      | Inr i \<Rightarrow> (case js_prop runner ''name'' of
                   Inl e \<Rightarrow> Inl e
                 | Inr n \<Rightarrow> Inr \<lparr>gl_ref_id = i, gl_ref_name = n\<rparr>))"

definition gitlab_runnerByName :: "string \<Rightarrow> (gl_runner_ref option, gl_state) se" where
  "gitlab_runnerByName name =
     bind (request ''/runners?per_page=100'' ''GET'' False) (\<lambda>res.
     bind (lift (as_array res)) (\<lambda>runners.
     bind (lift (filterE (name_matches name) runners)) (\<lambda>matching.
       (case matching of
          [] \<Rightarrow> ret None
        | runner # _ \<Rightarrow>
            if js_truthy (Some runner) then bind (lift (gl_to_ref runner)) (\<lambda>r. ret (Some r))
            else ret None))))"

definition gitlab_runnersByLabels :: "string \<Rightarrow> (gl_runner_ref list, gl_state) se" where
  "gitlab_runnersByLabels labels =
     bind (request (''/runners?per_page=100?tag_list='' @ labels) ''GET'' False) (\<lambda>res.
     bind (lift (as_array res)) (\<lambda>runners.
     lift (mapE gl_to_ref runners)))"


definition gitlab_checkCreate :: "'o \<Rightarrow> ('r, gl_state) se" where
  "gitlab_checkCreate opts = throw (Error ''Gitlab does not support check!'')"

section \<open>The trigger patterns, as the specification lists them\<close>

text \<open>GitHub: the line contains \<open>Running job\<close>, or \<open>Job\<close> and \<open>completed with result\<close>, or
  \<open>Listening for Jobs\<close>.\<close>

definition github_trigger :: "string \<Rightarrow> bool" where
  "github_trigger line =
     (str_includes line ''Running job''
      \<or> (str_includes line ''Job'' \<and> str_includes line ''completed with result'')
      \<or> str_includes line ''Listening for Jobs'')"

text \<open>GitLab: the line is a structured line whose field \<open>msg\<close> is a string that ends with
  \<open>received\<close>, starts with \<open>Job failed\<close> or \<open>Job succeeded\<close>, or contains
  \<open>Starting runner for\<close>.\<close>

definition msg_field :: "(string \<Rightarrow> json option) \<Rightarrow> string \<Rightarrow> string option" where
  "msg_field parse line =
     (case parse line of
        Some (JObject kvs) \<Rightarrow> (case map_of kvs ''msg'' of Some (JString m) \<Rightarrow> Some m | _ \<Rightarrow> None)
      | _ \<Rightarrow> None)"

definition gitlab_trigger :: "(string \<Rightarrow> json option) \<Rightarrow> string \<Rightarrow> bool" where
  "gitlab_trigger parse line =
     (case msg_field parse line of
        None \<Rightarrow> False
      | Some m \<Rightarrow>
          str_endsWith m ''received'' \<or> str_startsWith m ''Job failed''
          \<or> str_startsWith m ''Job succeeded'' \<or> str_includes m ''Starting runner for'')"

definition matches_trigger :: "(string \<Rightarrow> json option) \<Rightarrow> cml \<Rightarrow> string \<Rightarrow> bool" where
  "matches_trigger parse c line =
     (if cml_driver c = Some GITHUB then github_trigger line
      else if cml_driver c = Some GITLAB then gitlab_trigger parse line
      else False)"


section \<open>Traces and outcomes the properties speak about\<close>

text \<open>GitHub: the page size a list call asks for, the runner a delete call names, and the
  two calls of the driver for the scope that \<open>ownerRepo\<close> gives.\<close>

fun page_size :: "gh_call \<Rightarrow> nat option" where
  "page_size (ListSelfHostedRunnersForRepo owner repo n) = Some n"
| "page_size (ListSelfHostedRunnersForOrg org n) = Some n"
| "page_size (DeleteSelfHostedRunnerFromRepo owner repo i) = None"
| "page_size (DeleteSelfHostedRunnerFromOrg org i) = None"


definition list_call :: "string option \<times> string option \<Rightarrow> gh_call" where
  "list_call scope =
     (case snd scope of
        Some r \<Rightarrow> ListSelfHostedRunnersForRepo (fst scope) r 100
      | None \<Rightarrow> ListSelfHostedRunnersForOrg (fst scope) 100)"


text \<open>The runner that \<open>runnerByName\<close> takes from a list: the first with the name.\<close>

definition first_named :: "string \<Rightarrow> gh_runner list \<Rightarrow> runner_ref option" where
  "first_named name runners =
     (case filter (\<lambda>runner. runner_name runner = name) runners of
        [] \<Rightarrow> None
      | runner # _ \<Rightarrow> Some (to_ref runner))"

text \<open>GitLab: the request \<open>repoBase\<close> probes a path with, whether the path answers it as
  the API root does, and the request of an endpoint under a base.\<close>

definition version_request :: "gitlab \<Rightarrow> string \<Rightarrow> http_request" where
  "version_request g path =
     \<lparr>req_method = ''GET'', req_url = path @ ''/api/v4/version'', req_token = gl_token g\<rparr>"

definition responds :: "gitlab \<Rightarrow> gl_world \<Rightarrow> string \<Rightarrow> bool" where
  "responds g w path =
     (case fetch_answer w (version_request g path) of
        Inl e \<Rightarrow> False
      | Inr response \<Rightarrow>
          status_code response \<le> 300 \<and>
          (case json_body response of
             Inl e \<Rightarrow> False
           | Inr j \<Rightarrow> (case js_prop j ''version'' of Inl e \<Rightarrow> False | Inr v \<Rightarrow> js_truthy v)))"

definition is_probe :: "http_request \<Rightarrow> bool" where
  "is_probe rq = (req_method rq = ''GET'' \<and> str_endsWith (req_url rq) ''/api/v4/version'')"

definition api_request :: "gitlab \<Rightarrow> string \<Rightarrow> string \<Rightarrow> string \<Rightarrow> http_request" where
  "api_request g method base endpoint =
     \<lparr>req_method = method, req_url = base @ ''/api/v4'' @ endpoint, req_token = gl_token g\<rparr>"


text \<open>The \<open>DELETE\<close> requests sent so far, and the list a lookup resolves to (none when it
  rejects).\<close>

definition gl_deletes :: "gl_world \<Rightarrow> http_request list" where
  "gl_deletes w = filter (\<lambda>rq. req_method rq = ''DELETE'') (fetched w)"


definition results :: "error + 'a list \<Rightarrow> 'a list" where
  "results r = (case r of Inl e \<Rightarrow> [] | Inr xs \<Rightarrow> xs)"


section \<open>Example inputs\<close>

text \<open>A GitHub pipeline on commit \<open>abcdef1234\<close> of \<open>main\<close> that changed \<open>dvc.lock\<close>; the
  remote has the branch of the automated pull request, and the platform lists its pull
  request.\<close>

definition example_cml :: cml where
  "example_cml =
     \<lparr>cml_repo = ''https://github.com/iterative/cml'', cml_token = Some ''t0ken'',
      cml_driver = Some ''github''\<rparr>"

definition example_pr :: json where
  "example_pr =
     JObject [(''htmlUrl'', JString ''https://github.com/iterative/cml/pull/7''),
              (''head'', JObject [(''ref'', JString ''main-cml-pr-abcdef12'')]),
              (''base'', JObject [(''ref'', JString ''main'')])]"

definition example_world :: world where
  "example_world =
     \<lparr>GITHUB_SHA = Some ''abcdef1234'', GITHUB_REF = Some ''main'',
      GITHUB_EVENT_NAME = Some ''push'', pull_request_head_sha = None,
      CI_COMMIT_SHA = None, CI_BUILD_REF_NAME = None, GITLAB_USER_NAME = None,
      CI = Some ''true'', bitbucket_sha = None, bitbucket_branch = None,
      remote_with_credentials = (\<lambda>repo user password. Inl (TypeError ''Invalid URL'')),
      history = [],
      exec_answer = (\<lambda>h cmd.
        if cmd = ls_remote ''origin'' ''main-cml-pr-abcdef12''
        then Inr ''0a1b2c3d refs/heads/main-cml-pr-abcdef12'' else Inr []),
      status_answer = (\<lambda>h. Inr [''dvc.lock'', ''metrics.json'']),
      globby_answer = (\<lambda>h gs. Inr [''dvc.lock'', ''.gitignore'']),
      pulls_answer = (\<lambda>h d. Inr (JArray [example_pr])),
      create_answer = (\<lambda>h d po.
        Inr (JObject [(''htmlUrl'', JString ''https://github.com/iterative/cml/pull/8'')])),
      bitbucket_prs = (\<lambda>h. Inr []),
      bitbucket_prCreate = (\<lambda>h po. Inr None),
      console = []\<rparr>"

text \<open>A facade bound to GitLab, the structured line of the specification's example, and a
  \<open>JSON.parse\<close> that knows this one line.\<close>

definition example_gitlab_cml :: cml where
  "example_gitlab_cml =
     \<lparr>cml_repo = ''https://gitlab.example.com/gitlab/group/project'',
      cml_token = Some ''t0ken'', cml_driver = Some ''gitlab''\<rparr>"

definition gitlab_line :: string where
  "gitlab_line =
     ''{'' @ quoted ''msg'' @ '':'' @ quoted ''Job failed'' @ '','' @ quoted ''job'' @ '':7}''"

definition example_parse :: "string \<Rightarrow> json option" where
  "example_parse text =
     (if text = gitlab_line
      then Some (JObject [(''msg'', JString ''Job failed''), (''job'', JNumber 7)])
      else None)"

text \<open>\<open>new URL\<close> on the two repository addresses of the examples.\<close>

definition example_URL :: "string \<Rightarrow> url_parts option" where
  "example_URL s =
     (if s = ''https://github.com/iterative/cml'' then
        Some \<lparr>origin = ''https://github.com'', host = ''github.com'',
              pathname = ''/iterative/cml''\<rparr>
      else if s = ''https://gitlab.example.com/gitlab/group/project'' then
        Some \<lparr>origin = ''https://gitlab.example.com'', host = ''gitlab.example.com'',
              pathname = ''/gitlab/group/project''\<rparr>
      else None)"

text \<open>A GitHub platform that answers a list call with the first page of its listing, of the
  size the call asks for, and a repository with two runners.\<close>

definition example_github :: github where
  "example_github = \<lparr>gh_repo = ''https://github.com/iterative/cml'', gh_token = ''t0ken''\<rparr>"

definition gh_world_of :: "gh_runner list \<Rightarrow> gh_world" where
  "gh_world_of listing =
     \<lparr>gh_new_URL = example_URL, GITHUB_REPOSITORY = None,
      runners_answer = (\<lambda>base call.
        case page_size call of
          Some n \<Rightarrow> Inr (take n listing)
        | None \<Rightarrow> Inl (Error ''Not Found'')),
      delete_answer = (\<lambda>base call. Inr ()),
      gh_calls = []\<rparr>"

definition runner_a :: gh_runner where
  "runner_a = \<lparr>runner_id = 1, runner_name = ''runner-a'',
               runner_labels = [\<lparr>label_name = ''a''\<rparr>]\<rparr>"

definition runner_ab :: gh_runner where
  "runner_ab = \<lparr>runner_id = 2, runner_name = ''runner-ab'',
                runner_labels = [\<lparr>label_name = ''a''\<rparr>, \<lparr>label_name = ''b''\<rparr>]\<rparr>"

definition example_gh_world :: gh_world where
  "example_gh_world = gh_world_of [runner_a, runner_ab]"

text \<open>A GitLab installation mounted under \<open>/gitlab\<close>: only
  \<open>https://gitlab.example.com/gitlab\<close> answers the version endpoint. It answers every
  \<open>GET\<close> of a path that starts with \<open>/runners?\<close> with the first 100 entries of its listing,
  and takes no notice of the rest of the query.\<close>

definition example_gitlab :: gitlab where
  "example_gitlab =
     \<lparr>gl_token = ''t0ken'', gl_repo = ''https://gitlab.example.com/gitlab/group/project'',
      detected_base = None\<rparr>"

definition gl_world_of :: "json list \<Rightarrow> gl_world" where
  "gl_world_of listing =
     \<lparr>gl_new_URL = example_URL,
      fetch_answer = (\<lambda>rq.
        if req_url rq = ''https://gitlab.example.com/gitlab/api/v4/version'' then
          Inr \<lparr>status_code = 200, statusText = ''OK'',
               json_body = Inr (JObject [(''version'', JString ''13.5.0'')])\<rparr>
        else if req_method rq = ''GET'' \<and>
                str_startsWith (req_url rq)
                  ''https://gitlab.example.com/gitlab/api/v4/runners?'' then
          Inr \<lparr>status_code = 200, statusText = ''OK'',
               json_body = Inr (JArray (take 100 listing))\<rparr>
        else if req_method rq = ''DELETE'' \<and>
                str_startsWith (req_url rq)
                  ''https://gitlab.example.com/gitlab/api/v4/runners/'' then
          Inr \<lparr>status_code = 204, statusText = ''No Content'',
               json_body = Inl (SyntaxError ''Unexpected end of JSON input'')\<rparr>
        else
          Inr \<lparr>status_code = 404, statusText = ''Not Found'',
               json_body = Inr (JObject [(''error'', JString ''404 Not Found'')])\<rparr>),
      fetched = []\<rparr>"

definition gl_runner_a :: json where
  "gl_runner_a =
     JObject [(''id'', JNumber 1), (''description'', JString ''runner-a''),
              (''name'', JString ''gitlab-runner''), (''tag_list'', JArray [JString ''a''])]"

definition gl_runner_ab :: json where
  "gl_runner_ab =
     JObject [(''id'', JNumber 2), (''description'', JString ''runner-ab''),
              (''name'', JString ''gitlab-runner''),
              (''tag_list'', JArray [JString ''a'', JString ''b''])]"

definition example_gl_world :: gl_world where
  "example_gl_world = gl_world_of [gl_runner_a, gl_runner_ab]"

text \<open>The API root of the example installation.\<close>

definition example_base :: string where
  "example_base = ''https://gitlab.example.com/gitlab''"

text \<open>Platforms with 101 runners: a hundred named \<open>runner\<close>, then the one named
  \<open>late\<close>.\<close>

definition late_runner :: gh_runner where
  "late_runner = \<lparr>runner_id = 100, runner_name = ''late'',
                   runner_labels = [\<lparr>label_name = ''cml''\<rparr>]\<rparr>"

definition long_listing :: "gh_runner list" where
  "long_listing =
     map (\<lambda>i. \<lparr>runner_id = int i, runner_name = ''runner'',
                runner_labels = [\<lparr>label_name = ''cml''\<rparr>]\<rparr>) [0 ..< 100]
     @ [late_runner]"

definition gl_late_runner :: json where
  "gl_late_runner =
     JObject [(''id'', JNumber 100), (''description'', JString ''late''),
              (''name'', JString ''gitlab-runner''), (''tag_list'', JArray [JString ''cml''])]"

definition gl_long_listing :: "json list" where
  "gl_long_listing =
     map (\<lambda>i. JObject [(''id'', JNumber (int i)), (''description'', JString ''runner''),
                        (''name'', JString ''gitlab-runner''),
                        (''tag_list'', JArray [JString ''cml''])]) [0 ..< 100]
     @ [gl_late_runner]"

text \<open>A network on which nothing answers.\<close>

definition offline_gl_world :: gl_world where
  "offline_gl_world =
     \<lparr>gl_new_URL = example_URL,
      fetch_answer = (\<lambda>rq. Inl (Error ''connect ECONNREFUSED'')),
      fetched = []\<rparr>"

text \<open>\<open>prCreate\<close> called with no options.\<close>

definition default_opts :: prCreate_opts where
  "default_opts =
     \<lparr>opt_remote = None, opt_userEmail = None, opt_userName = None, opt_globs = None,
      opt_md = False\<rparr>"

text \<open>
  A GitLab pipeline on the same commit, for the facade \<open>example_gitlab_cml\<close>. The remote
  has the branch of the automated merge request, and the platform lists the open merge
  request of that branch into \<open>main\<close>, its address under the key \<open>key\<close> (the REST API of
  GitLab names it \<open>web_url\<close>); \<open>created\<close> is the platform's answer to a request that
  creates a merge request.
\<close>

definition example_mr :: "string \<Rightarrow> json" where
  "example_mr key =
     JObject [(key, JString ''https://gitlab.example.com/gitlab/group/project/-/merge_requests/7''),
              (''source_branch'', JString ''main-cml-pr-abcdef12''),
              (''target_branch'', JString ''main'')]"

definition example_gitlab_driver :: driver where
  "example_gitlab_driver =
     Gitlab \<lparr>gl_token = ''t0ken'', gl_repo = ''https://gitlab.example.com/gitlab/group/project'',
             detected_base = None\<rparr>"

definition example_mr_opts :: pr_opts where
  "example_mr_opts =
     \<lparr>pr_source = ''main-cml-pr-abcdef12'', pr_target = ''main'',
      pr_title = ''CML PR for main abcdef12'',
      pr_description =
        ''\<newline>Automated commits for https://gitlab.example.com/gitlab/group/project/commit/abcdef1234 created by CML.\<newline>  ''\<rparr>"

definition example_gitlab_world :: "string \<Rightarrow> error + json \<Rightarrow> world" where
  "example_gitlab_world key created =
     \<lparr>GITHUB_SHA = None, GITHUB_REF = None, GITHUB_EVENT_NAME = None,
      pull_request_head_sha = None,
      CI_COMMIT_SHA = Some ''abcdef1234'', CI_BUILD_REF_NAME = Some ''main'',
      GITLAB_USER_NAME = Some ''ci'',
      CI = Some ''true'', bitbucket_sha = None, bitbucket_branch = None,
      remote_with_credentials = (\<lambda>repo user password. Inl (TypeError ''Invalid URL'')),
      history = [],
      exec_answer = (\<lambda>h cmd.
        if cmd = ls_remote ''origin'' ''main-cml-pr-abcdef12''
        then Inr ''0a1b2c3d refs/heads/main-cml-pr-abcdef12'' else Inr []),
      status_answer = (\<lambda>h. Inr [''dvc.lock'', ''metrics.json'']),
      globby_answer = (\<lambda>h gs. Inr [''dvc.lock'', ''.gitignore'']),
      pulls_answer = (\<lambda>h d. Inr (JArray [example_mr key])),
      create_answer = (\<lambda>h d po. created),
      bitbucket_prs = (\<lambda>h. Inr []),
      bitbucket_prCreate = (\<lambda>h po. Inr None),
      console = []\<rparr>"

section \<open>Properties\<close>


subsection \<open>The branch of an automated pull request\<close>

lemma shaShort_take: "shaShort sha = take 8 sha"
  by (simp add: shaShort_def substr_def)

text \<open>
  C2. The source branch is a function of the target branch and the commit sha alone: it is
  the target, then \<open>-cml-pr-\<close>, then the first 8 characters of the sha. Two shas that agree
  on their first 8 characters give the same branch, and target \<open>main\<close> with sha
  \<open>abcdef1234\<close> gives \<open>main-cml-pr-abcdef12\<close>.
\<close>

theorem C2_source_branch:
  "source_branch tgt sha = tgt @ ''-cml-pr-'' @ take 8 sha
   \<and> source_branch ''main'' ''abcdef1234'' = ''main-cml-pr-abcdef12''
   \<and> (take 8 sha = take 8 sha' \<longrightarrow> source_branch tgt sha = source_branch tgt sha')"
  by (simp add: source_branch_def shaShort_take)

theorem C2_source_branch_witness:
  "take 8 ''abcdef1234'' = take 8 ''abcdef12ffff''
   \<and> source_branch ''main'' ''abcdef1234'' = source_branch ''main'' ''abcdef12ffff''
   \<and> source_branch ''main'' ''abcdef1234'' = ''main-cml-pr-abcdef12''"
proof -
  have h: "take 8 ''abcdef1234'' = take 8 ''abcdef12ffff''" by simp
  from C2_source_branch [of "''main''" "''abcdef1234''" "''abcdef12ffff''"] h
  show ?thesis by blast
qed

subsection \<open>Capabilities a driver does not have\<close>

text \<open>
  C8. \<open>checkCreate\<close> of the GitLab driver, \<open>registerRunner\<close> and \<open>upload\<close> of the GitHub
  driver fail for every input and in every state with an error whose message says
  \<open>does not support\<close>, and leave the state as it was: no request is sent.
\<close>

theorem C8_unsupported:
  "gitlab_checkCreate opts s = (Inl (Error ''Gitlab does not support check!''), s)
   \<and> github_registerRunner g opts' w =
       (Inl (Error ''Github does not support registerRunner!''), w)
   \<and> github_upload g opts'' w = (Inl (Error ''Github does not support publish!''), w)
   \<and> str_includes ''Gitlab does not support check!'' ''does not support''
   \<and> str_includes ''Github does not support registerRunner!'' ''does not support''
   \<and> str_includes ''Github does not support publish!'' ''does not support''"
  by (simp add: gitlab_checkCreate_def github_registerRunner_def github_upload_def throw_def
      str_includes_def sublist_Cons_right)

subsection \<open>The watermark of a comment\<close>

lemma WATERMARK_nonempty: "WATERMARK \<noteq> []"
  by (simp add: WATERMARK_def)

lemma commentCreate_Inr:
  assumes "commentCreate c opts w = (Inr (d, passed), w')"
  shows "report passed = report opts @ (if rmWatermark opts then [] else WATERMARK)"
    and "getDriver c = Inr d"
  using assms
  by (auto simp: commentCreate_def bind_def lift_def ret_def Let_def
      split: option.splits sum.splits prod.splits if_splits)

text \<open>With a commit sha given and a driver that can be built, the call reaches the driver.\<close>

lemma commentCreate_reaches_driver:
  assumes "getDriver c = Inr d" and "commitSha opts = Some sha"
  shows "commentCreate c opts w =
           (Inr (d, opts\<lparr>report := report opts @ (if rmWatermark opts then [] else WATERMARK),
                         commitSha := Some sha\<rparr>), w)"
  using assms by (simp add: commentCreate_def bind_def lift_def ret_def)

text \<open>
  C6. Whenever \<open>commentCreate\<close> hands a call to the driver, the report it passes is the
  caller's body unchanged when \<open>rmWatermark\<close> is set, and otherwise the body followed by
  the watermark: by one copy of it, not none and not two.
\<close>

theorem C6_watermark:
  assumes "commentCreate c opts w = (Inr (d, passed), w')"
  shows "(rmWatermark opts \<longrightarrow> report passed = report opts)
       \<and> (\<not> rmWatermark opts \<longrightarrow>
            report passed = report opts @ WATERMARK
          \<and> report passed \<noteq> report opts
          \<and> report passed \<noteq> report opts @ WATERMARK @ WATERMARK)"
  using commentCreate_Inr(1) [OF assms] WATERMARK_nonempty by auto

lemma getDriver_example:
  "getDriver example_cml =
     Inr (Github \<lparr>gh_repo = ''https://github.com/iterative/cml'', gh_token = ''t0ken''\<rparr>)"
  by (simp add: getDriver_def example_cml_def GITHUB_def new_Github_def)

theorem C6_watermark_witness:
  "commentCreate example_cml
     \<lparr>report = ''# Report'', commitSha = None, rmWatermark = False\<rparr> example_world
     = (Inr (Github \<lparr>gh_repo = ''https://github.com/iterative/cml'', gh_token = ''t0ken''\<rparr>,
             \<lparr>report = ''# Report'' @ WATERMARK, commitSha = Some ''abcdef1234'',
              rmWatermark = False\<rparr>),
        example_world)
   \<and> report \<lparr>report = ''# Report'' @ WATERMARK, commitSha = Some ''abcdef1234'',
              rmWatermark = False\<rparr>
       = ''# Report'' @ WATERMARK"
proof -
  have run: "commentCreate example_cml
     \<lparr>report = ''# Report'', commitSha = None, rmWatermark = False\<rparr> example_world
     = (Inr (Github \<lparr>gh_repo = ''https://github.com/iterative/cml'', gh_token = ''t0ken''\<rparr>,
             \<lparr>report = ''# Report'' @ WATERMARK, commitSha = Some ''abcdef1234'',
              rmWatermark = False\<rparr>),
        example_world)"
    by (simp add: commentCreate_def headSha_def bind_def lift_def ret_def getDriver_example
        driver_sha_def example_world_def)
  from C6_watermark [OF run] run show ?thesis by simp
qed

subsection \<open>The log normaliser\<close>

lemma github_block_None: "github_block log line = None \<longleftrightarrow> \<not> github_trigger line"
  by (simp add: github_block_def github_trigger_def Let_def)

lemma gitlab_block_no_trigger:
  "\<not> gitlab_trigger parse line \<Longrightarrow>
     gitlab_block parse log line = Inr None \<or> (\<exists>e. gitlab_block parse log line = Inl e)"
  by (auto simp: gitlab_block_def gitlab_trigger_def msg_field_def js_prop_def as_string_def Let_def
      split: option.splits sum.splits json.splits if_splits)

lemma gitlab_block_trigger:
  "gitlab_trigger parse line \<Longrightarrow> \<exists>ev. gitlab_block parse log line = Inr (Some ev)"
  by (auto simp: gitlab_block_def gitlab_trigger_def msg_field_def js_prop_def as_string_def Let_def
      split: option.splits sum.splits json.splits if_splits)

lemma try_no_trigger:
  assumes "\<not> matches_trigger parse c line"
  shows "parseRunnerLog_try parse now c line = Inr None
         \<or> (\<exists>e. parseRunnerLog_try parse now c line = Inl e)"
proof (cases "cml_driver c = Some GITHUB")
  case True
  with assms have "\<not> github_trigger line" by (simp add: matches_trigger_def)
  then have "github_block log line = None" for log by (simp add: github_block_None)
  with True show ?thesis
    by (simp add: parseRunnerLog_try_def GITHUB_def GITLAB_def)
next
  case False
  show ?thesis
  proof (cases "cml_driver c = Some GITLAB")
    case True
    with assms False have "\<not> gitlab_trigger parse line" by (simp add: matches_trigger_def)
    from gitlab_block_no_trigger [OF this] True False show ?thesis
      by (simp add: parseRunnerLog_try_def)
  next
    case False
    with \<open>cml_driver c \<noteq> Some GITHUB\<close> show ?thesis by (simp add: parseRunnerLog_try_def)
  qed
qed

lemma try_trigger:
  assumes "matches_trigger parse c line"
  shows "\<exists>ev. parseRunnerLog_try parse now c line = Inr (Some ev)"
proof (cases "cml_driver c = Some GITHUB")
  case True
  with assms have "github_trigger line" by (simp add: matches_trigger_def)
  then obtain ev where "github_block \<lparr>level = ''info'', time = now, log_repo = cml_repo c,
      job = None, status = None, success = None\<rparr> line = Some ev"
    using github_block_None by blast
  with True show ?thesis
    by (simp add: parseRunnerLog_try_def)
next
  case False
  with assms have gl: "cml_driver c = Some GITLAB" and "gitlab_trigger parse line"
    by (auto simp: matches_trigger_def split: if_splits)
  from gitlab_block_trigger [OF this(2)] gl False show ?thesis
    by (simp add: parseRunnerLog_try_def)
qed

text \<open>A line yields no event exactly when it is empty or matches no trigger pattern.\<close>

lemma no_event_iff:
  "(\<exists>out'. parseRunnerLog parse now c (Some line) out = (Inr None, out'))
   \<longleftrightarrow> line = [] \<or> \<not> matches_trigger parse c line"
proof (cases "line = []")
  case True
  then show ?thesis by (simp add: parseRunnerLog_def ret_def)
next
  case False
  show ?thesis
  proof (cases "matches_trigger parse c line")
    case True
    from try_trigger [OF this] obtain ev
      where "parseRunnerLog_try parse now c line = Inr (Some ev)"
      by blast
    with True False show ?thesis by (simp add: parseRunnerLog_def ret_def)
  next
    case nt: False
    from try_no_trigger [OF this, of now] False nt show ?thesis
      by (auto simp: parseRunnerLog_def ret_def)
  qed
qed

lemma github_example:
  "cml_driver c = Some GITHUB \<Longrightarrow>
   parseRunnerLog parse now c (Some ''Job 42 completed with result: Succeeded'') out
     = (Inr (Some \<lparr>level = ''info'', time = now, log_repo = cml_repo c, job = Some (JString []),
                   status = Some ''job_ended'', success = Some True\<rparr>), out)"
  by (simp add: parseRunnerLog_def parseRunnerLog_try_def github_block_def ret_def Let_def
      str_includes_def str_endsWith_def sublist_Cons_right suffix_to_prefix)

lemma gitlab_line_nonempty: "gitlab_line \<noteq> []"
  by (simp add: gitlab_line_def)

lemma gitlab_example:
  "cml_driver c = Some GITLAB \<Longrightarrow>
   parse gitlab_line = Some (JObject [(''msg'', JString ''Job failed''), (''job'', JNumber 7)]) \<Longrightarrow>
   parseRunnerLog parse now c (Some gitlab_line) out
     = (Inr (Some \<lparr>level = ''error'', time = now, log_repo = cml_repo c, job = Some (JNumber 7),
                   status = Some ''job_ended'', success = Some False\<rparr>), out)"
  by (simp add: parseRunnerLog_def parseRunnerLog_try_def gitlab_block_def ret_def Let_def
      GITHUB_def GITLAB_def js_prop_def as_string_def gitlab_line_nonempty
      str_includes_def str_endsWith_def str_startsWith_def sublist_Cons_right suffix_to_prefix)

text \<open>
  C4. On the GitHub driver the line \<open>Job 42 completed with result: Succeeded\<close> gives an
  event with status \<open>job_ended\<close>, success true and level \<open>info\<close>. On the GitLab driver the
  line \<open>{"msg":"Job failed","job":7}\<close>, which \<open>JSON.parse\<close> reads as the object with
  \<open>msg\<close> and \<open>job\<close>, gives an event with status \<open>job_ended\<close>, success false, level
  \<open>error\<close> and job 7. On every driver a line gives no event exactly when it is empty or
  matches no trigger pattern of that driver.
\<close>

theorem C4_log_normaliser:
  "(cml_driver c = Some GITHUB \<longrightarrow>
      parseRunnerLog parse now c (Some ''Job 42 completed with result: Succeeded'') out
        = (Inr (Some \<lparr>level = ''info'', time = now, log_repo = cml_repo c,
                      job = Some (JString []), status = Some ''job_ended'',
                      success = Some True\<rparr>), out))
   \<and> (cml_driver c = Some GITLAB
        \<and> parse gitlab_line
            = Some (JObject [(''msg'', JString ''Job failed''), (''job'', JNumber 7)]) \<longrightarrow>
      parseRunnerLog parse now c (Some gitlab_line) out
        = (Inr (Some \<lparr>level = ''error'', time = now, log_repo = cml_repo c,
                      job = Some (JNumber 7), status = Some ''job_ended'',
                      success = Some False\<rparr>), out))
   \<and> ((\<exists>out'. parseRunnerLog parse now c (Some line) out = (Inr None, out'))
        \<longleftrightarrow> line = [] \<or> \<not> matches_trigger parse c line)"
  using github_example [of c parse now out] gitlab_example [of c parse now out]
    no_event_iff [of parse now c line out]
  by blast

lemma example_drivers:
  "cml_driver example_cml = Some GITHUB" "cml_driver example_gitlab_cml = Some GITLAB"
  by (simp_all add: example_cml_def example_gitlab_cml_def GITHUB_def GITLAB_def)

lemma example_parse_line:
  "example_parse gitlab_line
     = Some (JObject [(''msg'', JString ''Job failed''), (''job'', JNumber 7)])"
  by (simp add: example_parse_def)

lemma example_no_trigger:
  "\<not> matches_trigger example_parse example_cml ''Connected to GitHub''"
  "\<not> matches_trigger example_parse example_gitlab_cml ''Connected to GitLab''"
  by (simp_all add: matches_trigger_def example_drivers github_trigger_def gitlab_trigger_def
      msg_field_def example_parse_def gitlab_line_def quoted_def GITHUB_def GITLAB_def
      str_includes_def sublist_Cons_right)

theorem C4_log_normaliser_witness:
  "parseRunnerLog example_parse ''2020-11-02T00:00:00.000Z'' example_cml
       (Some ''Job 42 completed with result: Succeeded'') []
     = (Inr (Some \<lparr>level = ''info'', time = ''2020-11-02T00:00:00.000Z'',
                   log_repo = cml_repo example_cml, job = Some (JString []),
                   status = Some ''job_ended'', success = Some True\<rparr>), [])
   \<and> parseRunnerLog example_parse ''2020-11-02T00:00:00.000Z'' example_gitlab_cml
       (Some gitlab_line) []
     = (Inr (Some \<lparr>level = ''error'', time = ''2020-11-02T00:00:00.000Z'',
                   log_repo = cml_repo example_gitlab_cml, job = Some (JNumber 7),
                   status = Some ''job_ended'', success = Some False\<rparr>), [])
   \<and> (\<exists>out'. parseRunnerLog example_parse ''2020-11-02T00:00:00.000Z'' example_cml
         (Some ''Connected to GitHub'') [] = (Inr None, out'))
   \<and> (\<exists>out'. parseRunnerLog example_parse ''2020-11-02T00:00:00.000Z'' example_gitlab_cml
         (Some ''Connected to GitLab'') [] = (Inr None, out'))"
  using
    C4_log_normaliser [of example_cml example_parse "''2020-11-02T00:00:00.000Z''" "[]"
      "''Connected to GitHub''"]
    C4_log_normaliser [of example_gitlab_cml example_parse "''2020-11-02T00:00:00.000Z''" "[]"
      "''Connected to GitLab''"]
    example_drivers example_parse_line example_no_trigger
  by blast

text \<open>
  C5. \<open>parseRunnerLog\<close> never raises: for every \<open>JSON.parse\<close>, facade, input and console
  it returns a result. When the body of its \<open>try\<close> raises an error on a line, the error's
  message is logged and the result is null; text that \<open>JSON.parse\<close> rejects under the
  GitLab driver is such a case.
\<close>

theorem C5_never_raises:
  "(\<exists>r out'. parseRunnerLog parse now c data out = (Inr r, out'))
   \<and> (line \<noteq> [] \<and> parseRunnerLog_try parse now c line = Inl e \<longrightarrow>
        parseRunnerLog parse now c (Some line) out
          = (Inr None, out @ [''Failed parsing log: '' @ message e]))
   \<and> (cml_driver c = Some GITLAB \<and> parse line = None \<longrightarrow>
        (\<exists>e'. parseRunnerLog_try parse now c line = Inl e'))"
proof (intro conjI impI)
  show "\<exists>r out'. parseRunnerLog parse now c data out = (Inr r, out')"
    by (simp add: parseRunnerLog_def ret_def split: option.splits sum.splits)
next
  assume "line \<noteq> [] \<and> parseRunnerLog_try parse now c line = Inl e"
  then show "parseRunnerLog parse now c (Some line) out
          = (Inr None, out @ [''Failed parsing log: '' @ message e])"
    by (simp add: parseRunnerLog_def)
next
  assume "cml_driver c = Some GITLAB \<and> parse line = None"
  then show "\<exists>e'. parseRunnerLog_try parse now c line = Inl e'"
    by (simp add: parseRunnerLog_try_def gitlab_block_def GITHUB_def GITLAB_def)
qed

theorem C5_never_raises_witness:
  "parseRunnerLog example_parse ''2020-11-02T00:00:00.000Z'' example_gitlab_cml
       (Some ''not json'') []
     = (Inr None, [''Failed parsing log: Unexpected token in JSON''])"
proof -
  have l: "''not json'' \<noteq> []" by simp
  have p: "example_parse ''not json'' = None"
    by (simp add: example_parse_def gitlab_line_def)
  have t: "parseRunnerLog_try example_parse ''2020-11-02T00:00:00.000Z'' example_gitlab_cml
             ''not json'' = Inl (SyntaxError ''Unexpected token in JSON'')"
    by (simp add: parseRunnerLog_try_def gitlab_block_def p example_gitlab_cml_def
        GITHUB_def GITLAB_def)
  from C5_never_raises [of example_parse "''2020-11-02T00:00:00.000Z''" example_gitlab_cml
      "Some ''not json''" "[]" "''not json''" "SyntaxError ''Unexpected token in JSON''"] l t
  show ?thesis by simp
qed

subsection \<open>The GitHub driver, step by step\<close>

lemma ownerRepo_state: "snd (ownerRepo uri w) = w"
  by (simp add: ownerRepo_def split: option.splits)

lemma octokit_state: "snd (octokit t r w) = w"
  by (simp add: octokit_def split: option.splits)

lemma ownerRepo_eq: "ownerRepo uri w = (fst (ownerRepo uri w), w)"
  by (metis ownerRepo_state prod.collapse)

lemma octokit_eq: "octokit t r w = (fst (octokit t r w), w)"
  by (metis octokit_state prod.collapse)

text \<open>getRunners: either an early failure with the world untouched, or one list call.\<close>

lemma getRunners_unfold:
  "github_getRunners g w =
     (case fst (ownerRepo (Some (gh_repo g)) w) of
        Inl e \<Rightarrow> (Inl e, w)
      | Inr scope \<Rightarrow>
          (case fst (octokit (gh_token g) (gh_repo g) w) of
             Inl e \<Rightarrow> (Inl e, w)
           | Inr base \<Rightarrow> gh_list base (list_call scope) w))"
proof -
  obtain r1 where o: "ownerRepo (Some (gh_repo g)) w = (r1, w)"
    using ownerRepo_eq by blast
  obtain r2 where k: "octokit (gh_token g) (gh_repo g) w = (r2, w)"
    using octokit_eq by blast
  show ?thesis
    by (cases r1; cases r2)
       (auto simp: github_getRunners_def bind_def o k list_call_def split: option.splits)
qed

lemma runnerByName_unfold:
  "github_runnerByName g name w =
     (case github_getRunners g w of
        (Inl e, w') \<Rightarrow> (Inl e, w')
      | (Inr runners, w') \<Rightarrow> (Inr (first_named name runners), w'))"
  by (simp add: github_runnerByName_def bind_def ret_def first_named_def
      split: sum.splits prod.splits list.splits)

lemma runnersByLabels_unfold:
  "github_runnersByLabels g labels w =
     (case github_getRunners g w of
        (Inl e, w') \<Rightarrow> (Inl e, w')
      | (Inr runners, w') \<Rightarrow> (Inr (map to_ref (filter (has_labels labels) runners)), w'))"
  by (simp add: github_runnersByLabels_def bind_def ret_def
      split: sum.splits prod.splits list.splits)

lemma has_labels_superset:
  "has_labels labels runner \<longleftrightarrow>
     set (str_split CHR '','' labels) \<subseteq> label_name ` set (runner_labels runner)"
  by (auto simp: has_labels_def list_all_iff)



subsection \<open>The GitLab driver, step by step\<close>

lemma probe_eq:
  "probe path (g, w) =
     (if responds g w path then Some path else None,
      (g, w\<lparr>fetched := fetched w @ [version_request g path]\<rparr>))"
  by (simp add: probe_def request_url_def responds_def version_request_def API_VER_def Let_def
      split: sum.splits gl_result.splits prod.splits)

lemma probe_all_eq:
  "probe_all ps (g, w) =
     (map (\<lambda>p. if responds g w p then Some p else None) ps,
      (g, w\<lparr>fetched := fetched w @ map (version_request g) ps\<rparr>))"
proof (induction ps arbitrary: w)
  case Nil
  then show ?case by simp
next
  case (Cons p ps)
  have r: "responds g (w\<lparr>fetched := fetched w @ [version_request g p]\<rparr>) q = responds g w q" for q
    by (simp add: responds_def)
  show ?case
    by (simp add: probe_eq Cons.IH r)
qed

lemma find_truthy_map:
  assumes "\<forall>p \<in> set ps. p \<noteq> []"
  shows "find truthy_str (map (\<lambda>p. if P p then Some p else None) ps) = map_option Some (find P ps)"
  using assms by (induction ps) (auto simp: truthy_str_def)

lemma str_join_nonempty: "x \<noteq> [] \<Longrightarrow> str_join sep (x # xs) \<noteq> []"
  by (cases xs) auto

lemma candidates_nonempty: "origin u \<noteq> [] \<Longrightarrow> \<forall>p \<in> set (candidates u). p \<noteq> []"
  by (auto simp: candidates_def str_join_nonempty)

lemma repoBase_fresh:
  assumes "\<not> truthy_str (detected_base g)" and "gl_new_URL w (gl_repo g) = Some u" and "origin u \<noteq> []"
  shows "repoBase (g, w) =
          (case find (responds g w) (candidates u) of
             Some base \<Rightarrow> (Inr base, (g\<lparr>detected_base := Some base\<rparr>,
                                    w\<lparr>fetched := fetched w @ map (version_request g) (candidates u)\<rparr>))
           | None \<Rightarrow> (Inl (Error ''GitLab API not found''),
                      (g\<lparr>detected_base := None\<rparr>,
                       w\<lparr>fetched := fetched w @ map (version_request g) (candidates u)\<rparr>)))"
  using assms
  by (simp add: repoBase_def probe_all_eq find_truthy_map [OF candidates_nonempty] split: option.splits)

lemma find_holds: "find P xs = Some x \<Longrightarrow> P x \<and> x \<in> set xs"
  by (induction xs) (auto split: if_splits)

lemma repoBase_Inr:
  assumes "repoBase st = (Inr base, st')"
  shows "base \<noteq> [] \<and> detected_base (fst st') = Some base"
proof -
  obtain g w where st: "st = (g, w)" by (cases st)
  show ?thesis
  proof (cases "truthy_str (detected_base g)")
    case True
    with assms st show ?thesis
      by (auto simp: repoBase_def truthy_str_def split: option.splits)
  next
    case False
    with assms st show ?thesis
      by (auto simp: repoBase_def truthy_str_def
               split: option.splits prod.splits dest!: find_holds)
  qed
qed

lemma repoBase_hit:
  assumes "detected_base (fst st) = Some base" and "base \<noteq> []"
  shows "repoBase st = (Inr base, st)"
  using assms by (cases st) (simp add: repoBase_def truthy_str_def)

lemma repoBase_cached:
  assumes "repoBase st = (Inr base, st')"
  shows "repoBase st' = (Inr base, st')"
  using repoBase_Inr [OF assms] by (simp add: repoBase_hit)

lemma version_request_probe: "is_probe (version_request g path)"
  by (simp add: is_probe_def version_request_def str_endsWith_def suffix_def)

text \<open>Discovery in any state: the instance keeps its token and repository, the world its
  answers, and only probes are sent.\<close>

lemma repoBase_effect:
  assumes "repoBase (g, w) = (r, st')"
  shows "\<exists>probes. gl_token (fst st') = gl_token g \<and> gl_repo (fst st') = gl_repo g
          \<and> fetch_answer (snd st') = fetch_answer w \<and> gl_new_URL (snd st') = gl_new_URL w
          \<and> fetched (snd st') = fetched w @ probes \<and> list_all is_probe probes"
proof (cases "truthy_str (detected_base g)")
  case True
  with assms have "st' = (g, w)"
    by (auto simp: repoBase_def truthy_str_def split: option.splits)
  then show ?thesis by (intro exI [of _ "[]"]) simp
next
  case False
  show ?thesis
  proof (cases "gl_new_URL w (gl_repo g)")
    case None
    with False assms have "st' = (g, w)" by (auto simp: repoBase_def)
    then show ?thesis by (intro exI [of _ "[]"]) simp
  next
    case (Some u)
    with False assms show ?thesis
      by (intro exI [of _ "map (version_request g) (candidates u)"])
         (auto simp: repoBase_def probe_all_eq list_all_iff version_request_probe
               split: option.splits)
  qed
qed

lemma request_unfold:
  "endpoint \<noteq> [] \<Longrightarrow>
   request endpoint method raw st =
     (case repoBase st of
        (Inl e, st') \<Rightarrow> (Inl e, st')
      | (Inr base, st') \<Rightarrow> request_url (base @ ''/api/v4'' @ endpoint) method raw st')"
  unfolding request_def bind_def API_VER_def
  by (auto split: prod.splits sum.splits)

text \<open>A request that resolves: the base was found, one request went out behind the probes,
  and the base stays cached.\<close>

lemma request_Inr:
  assumes "request endpoint method raw (g, w) = (Inr res, s1)" and "endpoint \<noteq> []"
  shows "\<exists>base probes response.
           base \<noteq> [] \<and> detected_base (fst s1) = Some base
         \<and> gl_token (fst s1) = gl_token g
         \<and> fetch_answer (snd s1) = fetch_answer w
         \<and> fetched (snd s1) = fetched w @ probes @ [api_request g method base endpoint]
         \<and> list_all is_probe probes
         \<and> fetch_answer w (api_request g method base endpoint) = Inr response
         \<and> status_code response \<le> 300
         \<and> (if raw then res = Raw response
             else \<exists>j. json_body response = Inr j \<and> res = Json j)"
proof -
  from assms obtain base g' w' where
    rb: "repoBase (g, w) = (Inr base, (g', w'))" and
    ru: "request_url (base @ ''/api/v4'' @ endpoint) method raw (g', w') = (Inr res, s1)"
    by (auto simp: request_unfold split: prod.splits sum.splits)
  from repoBase_Inr [OF rb] have b: "base \<noteq> []" "detected_base g' = Some base" by simp_all
  from repoBase_effect [OF rb] obtain probes where
    e: "gl_token g' = gl_token g" "fetch_answer w' = fetch_answer w"
       "fetched w' = fetched w @ probes" "list_all is_probe probes"
    by auto
  from ru have u: "request_url (base @ ''/api/v4'' @ endpoint) method raw (g', w') =
      (Inr res, s1)" .
  then obtain response where
    f: "fetch_answer w' (api_request g' method base endpoint) = Inr response" and
    s: "status_code response \<le> 300" and
    s1: "s1 = (g', w'\<lparr>fetched := fetched w' @ [api_request g' method base endpoint]\<rparr>)" and
    res: "if raw then res = Raw response else \<exists>j. json_body response = Inr j \<and> res = Json j"
    by (auto simp: request_url_def api_request_def Let_def split: if_splits sum.splits)
  have rq: "api_request g' method base endpoint = api_request g method base endpoint"
    by (simp add: api_request_def e)
  from b e f s s1 res rq show ?thesis
    by (intro exI [of _ base] exI [of _ probes] exI [of _ response]) simp
qed

lemma filterE_Inr:
  "filterE p xs = Inr ys \<Longrightarrow> set ys \<subseteq> set xs \<and> (\<forall>y \<in> set ys. p y = Inr True)"
  by (induction xs arbitrary: ys) (auto split: sum.splits if_splits)

lemma mapE_Inr:
  "mapE f xs = Inr ys \<Longrightarrow> list_all2 (\<lambda>x y. f x = Inr y) xs ys"
  by (induction xs arbitrary: ys) (auto split: sum.splits)

lemma mapE_set:
  "mapE f xs = Inr ys \<Longrightarrow> y \<in> set ys \<Longrightarrow> \<exists>x \<in> set xs. f x = Inr y"
  by (induction xs arbitrary: ys) (auto split: sum.splits)

lemma as_array_Inr: "as_array res = Inr rs \<longleftrightarrow> res = Json (JArray rs)"
  by (auto simp: as_array_def split: gl_result.splits json.splits)

text \<open>Any request, whatever its outcome: probes, then at most the request itself.\<close>

lemma request_url_effect:
  assumes "request_url u method raw (g, w) = (r, st')"
  shows "fst st' = g \<and> fetch_answer (snd st') = fetch_answer w
       \<and> (\<exists>rest. fetched (snd st') = fetched w @ rest
            \<and> (rest = [] \<or> rest = [\<lparr>req_method = method, req_url = u, req_token = gl_token g\<rparr>]))"
  using assms
  by (auto simp: request_url_def Let_def split: if_splits sum.splits)

lemma request_effect:
  assumes "request endpoint method raw (g, w) = (r, st')"
  shows "gl_token (fst st') = gl_token g \<and> fetch_answer (snd st') = fetch_answer w
       \<and> (\<exists>probes rest. fetched (snd st') = fetched w @ probes @ rest
            \<and> list_all is_probe probes
            \<and> (rest = [] \<or> (\<exists>base. rest = [api_request g method base endpoint])))"
proof (cases "endpoint = []")
  case True
  with assms have "st' = (g, w)" by (simp add: request_def throw_def)
  then show ?thesis by (auto intro!: exI [of _ "[]"])
next
  case False
  obtain rb g' w' where rb: "repoBase (g, w) = (rb, (g', w'))"
    by (metis prod.collapse)
  from repoBase_effect [OF rb] obtain probes where
    e: "gl_token g' = gl_token g" "fetch_answer w' = fetch_answer w"
       "fetched w' = fetched w @ probes" "list_all is_probe probes"
    by auto
  show ?thesis
  proof (cases rb)
    case (Inl err)
    with assms rb False have "st' = (g', w')" by (simp add: request_unfold)
    with e show ?thesis
      by (intro conjI exI [of _ probes] exI [of _ "[]"]) simp_all
  next
    case (Inr base)
    with assms rb False have
      "request_url (base @ ''/api/v4'' @ endpoint) method raw (g', w') = (r, st')"
      by (simp add: request_unfold)
    from request_url_effect [OF this] obtain rest where
      u: "fst st' = g'" "fetch_answer (snd st') = fetch_answer w'"
         "fetched (snd st') = fetched w' @ rest"
         "rest = [] \<or> rest = [api_request g' method base endpoint]"
      by (auto simp: api_request_def)
    have "api_request g' method base endpoint = api_request g method base endpoint"
      by (simp add: api_request_def e)
    with u e show ?thesis
      by (intro conjI exI [of _ probes] exI [of _ rest]) auto
  qed
qed

lemma probes_no_delete: "list_all is_probe probes \<Longrightarrow> filter (\<lambda>rq. req_method rq = ''DELETE'') probes = []"
  by (induction probes) (auto simp: is_probe_def)

lemma gl_runnerByName_unfold:
  "gitlab_runnerByName name st =
     (case request ''/runners?per_page=100'' ''GET'' False st of
        (Inl e, st') \<Rightarrow> (Inl e, st')
      | (Inr res, st') \<Rightarrow>
          (case as_array res of
             Inl e \<Rightarrow> (Inl e, st')
           | Inr runners \<Rightarrow>
               (case filterE (name_matches name) runners of
                  Inl e \<Rightarrow> (Inl e, st')
                | Inr [] \<Rightarrow> (Inr None, st')
                | Inr (runner # _) \<Rightarrow>
                    if js_truthy (Some runner) then
                      (case gl_to_ref runner of
                         Inl e \<Rightarrow> (Inl e, st')
                       | Inr ref \<Rightarrow> (Inr (Some ref), st'))
                    else (Inr None, st'))))"
  by (simp add: gitlab_runnerByName_def bind_def lift_def ret_def
      split: prod.splits sum.splits list.splits)

lemma gl_runnersByLabels_unfold:
  "gitlab_runnersByLabels labels st =
     (case request (''/runners?per_page=100?tag_list='' @ labels) ''GET'' False st of
        (Inl e, st') \<Rightarrow> (Inl e, st')
      | (Inr res, st') \<Rightarrow>
          (case as_array res of
             Inl e \<Rightarrow> (Inl e, st')
           | Inr runners \<Rightarrow> (mapE gl_to_ref runners, st')))"
  by (simp add: gitlab_runnersByLabels_def bind_def lift_def ret_def
      split: prod.splits sum.splits list.splits)

lemma gl_runnerByName_state:
  "snd (gitlab_runnerByName name st) = snd (request ''/runners?per_page=100'' ''GET'' False st)"
  by (simp add: gl_runnerByName_unfold split: prod.splits sum.splits list.splits)

lemma gl_runnersByLabels_state:
  "snd (gitlab_runnersByLabels labels st) =
     snd (request (''/runners?per_page=100?tag_list='' @ labels) ''GET'' False st)"
  by (simp add: gl_runnersByLabels_unfold split: prod.splits sum.splits list.splits)

text \<open>What a lookup that resolves has seen.\<close>

lemma gl_runnerByName_Inr:
  assumes "gitlab_runnerByName name (g, w) = (Inr found, s1)"
  shows "\<exists>base response runners.
           repoBase s1 = (Inr base, s1)
         \<and> fetch_answer w (api_request g ''GET'' base ''/runners?per_page=100'') = Inr response
         \<and> json_body response = Inr (JArray runners)
         \<and> (\<forall>ref. found = Some ref \<longrightarrow>
               (\<exists>runner \<in> set runners. name_matches name runner = Inr True
                                        \<and> gl_to_ref runner = Inr ref))
         \<and> gl_deletes (snd s1) = gl_deletes w"
proof -
  from assms obtain res where
    rq: "request ''/runners?per_page=100'' ''GET'' False (g, w) = (Inr res, s1)"
    by (auto simp: gl_runnerByName_unfold split: prod.splits sum.splits list.splits if_splits)
  from request_Inr [OF rq] obtain base probes response j where
    b: "base \<noteq> []" "detected_base (fst s1) = Some base" and
    f: "fetched (snd s1) = fetched w @ probes @ [api_request g ''GET'' base ''/runners?per_page=100'']"
       "list_all is_probe probes" and
    a: "fetch_answer w (api_request g ''GET'' base ''/runners?per_page=100'') = Inr response"
       "json_body response = Inr j" "res = Json j"
    by auto
  from assms rq a obtain runners matching where
    r: "j = JArray runners" "filterE (name_matches name) runners = Inr matching" and
    m: "found = (case matching of [] \<Rightarrow> None | runner # _ \<Rightarrow> found)"
       "\<forall>ref. found = Some ref \<longrightarrow> (\<exists>runner. matching = runner # tl matching \<and> gl_to_ref runner = Inr ref)"
    by (auto simp: gl_runnerByName_unfold as_array_def
             split: prod.splits sum.splits list.splits if_splits json.splits)
  from filterE_Inr [OF r(2)] m(2) have
    "\<forall>ref. found = Some ref \<longrightarrow>
        (\<exists>runner \<in> set runners. name_matches name runner = Inr True \<and> gl_to_ref runner = Inr ref)"
    by (metis list.set_intros(1) subsetD)
  moreover have "gl_deletes (snd s1) = gl_deletes w"
    using f by (simp add: gl_deletes_def probes_no_delete api_request_def)
  ultimately show ?thesis
    using b a r by (auto simp: repoBase_hit)
qed

subsection \<open>unregisterRunner\<close>










text \<open>Evaluation on the example platforms.\<close>

lemma example_ownerRepo:
  "ownerRepo (Some (gh_repo example_github)) ((gh_world_of l)\<lparr>gh_calls := cs\<rparr>) =
     (Inr (Some ''iterative'', Some ''cml''), (gh_world_of l)\<lparr>gh_calls := cs\<rparr>)"
  by (simp add: ownerRepo_def example_github_def gh_world_of_def example_URL_def first_two_def)

lemma example_octokit:
  "octokit (gh_token example_github) (gh_repo example_github) ((gh_world_of l)\<lparr>gh_calls := cs\<rparr>) =
     (Inr None, (gh_world_of l)\<lparr>gh_calls := cs\<rparr>)"
  by (simp add: octokit_def example_github_def str_includes_def sublist_Cons_right)

lemma gh_world_of_calls: "(gh_world_of l)\<lparr>gh_calls := []\<rparr> = gh_world_of l"
  by (simp add: gh_world_of_def)

lemma example_getRunners:
  "github_getRunners example_github (gh_world_of l) =
     (Inr (take 100 l),
      (gh_world_of l)\<lparr>gh_calls :=
        [(None, ListSelfHostedRunnersForRepo (Some ''iterative'') ''cml'' 100)]\<rparr>)"
  using example_ownerRepo [where l = l and cs = "[]"] example_octokit [where l = l and cs = "[]"]
  by (simp add: getRunners_unfold gh_world_of_calls list_call_def gh_list_def)
     (simp add: gh_world_of_def)





lemma example_candidates:
  "gl_new_URL (gl_world_of l) (gl_repo example_gitlab) =
     Some \<lparr>origin = ''https://gitlab.example.com'', host = ''gitlab.example.com'',
           pathname = ''/gitlab/group/project''\<rparr>"
  "candidates \<lparr>origin = ''https://gitlab.example.com'', host = ''gitlab.example.com'',
           pathname = ''/gitlab/group/project''\<rparr>
     = [''https://gitlab.example.com'', ''https://gitlab.example.com/gitlab'',
        ''https://gitlab.example.com/gitlab/group'']"
  by (simp_all add: gl_world_of_def example_gitlab_def example_URL_def candidates_def
      segments_def)

lemma example_responds:
  "\<not> responds example_gitlab (gl_world_of l) ''https://gitlab.example.com''"
  "responds example_gitlab (gl_world_of l) ''https://gitlab.example.com/gitlab''"
  "\<not> responds example_gitlab (gl_world_of l) ''https://gitlab.example.com/gitlab/group''"
  by (simp_all add: responds_def version_request_def gl_world_of_def js_prop_def js_truthy_def
      str_startsWith_def)

lemma example_repoBase:
  "repoBase (example_gitlab, gl_world_of l) =
     (Inr example_base,
      (example_gitlab\<lparr>detected_base := Some example_base\<rparr>,
       (gl_world_of l)\<lparr>fetched := map (version_request example_gitlab)
          [''https://gitlab.example.com'', ''https://gitlab.example.com/gitlab'',
           ''https://gitlab.example.com/gitlab/group'']\<rparr>))"
proof -
  have "\<not> truthy_str (detected_base example_gitlab)"
    by (simp add: example_gitlab_def truthy_str_def)
  from repoBase_fresh [OF this example_candidates(1)] show ?thesis
    by (simp add: example_candidates(2) example_responds example_base_def)
       (simp add: gl_world_of_def)
qed

lemma example_listing_request:
  "request (''/runners?'' @ q) ''GET'' False (example_gitlab, gl_world_of l) =
     (Inr (Json (JArray (take 100 l))),
      (example_gitlab\<lparr>detected_base := Some example_base\<rparr>,
       (gl_world_of l)\<lparr>fetched := map (version_request example_gitlab)
          [''https://gitlab.example.com'', ''https://gitlab.example.com/gitlab'',
           ''https://gitlab.example.com/gitlab/group'']
          @ [api_request example_gitlab ''GET'' example_base (''/runners?'' @ q)]\<rparr>))"
  by (simp add: request_unfold example_repoBase request_url_def Let_def)
     (simp add: gl_world_of_def example_base_def api_request_def example_gitlab_def
        str_startsWith_def)



lemma example_gl_labels:
  "fst (gitlab_runnersByLabels ''a,b'' (example_gitlab, example_gl_world))
     = Inr [\<lparr>gl_ref_id = Some (JNumber 1), gl_ref_name = Some (JString ''gitlab-runner'')\<rparr>,
            \<lparr>gl_ref_id = Some (JNumber 2), gl_ref_name = Some (JString ''gitlab-runner'')\<rparr>]"
  using example_listing_request [of "''per_page=100?tag_list=a,b''" "[gl_runner_a, gl_runner_ab]"]
  by (simp add: gl_runnersByLabels_unfold example_gl_world_def as_array_def
      js_prop_def gl_runner_a_def gl_runner_ab_def gl_to_ref_def)






subsection \<open>runnersByLabels\<close>

text \<open>The GitHub driver keeps exactly the runners of the answer that carry every label.\<close>

lemma github_runnersByLabels_exact:
  assumes "github_getRunners g w = (Inr runners, w')"
  shows "github_runnersByLabels g labels w =
           (Inr (map to_ref
                  (filter (\<lambda>runner. set (str_split CHR '','' labels)
                                       \<subseteq> label_name ` set (runner_labels runner)) runners)),
            w')"
proof -
  have "has_labels labels = (\<lambda>runner. set (str_split CHR '','' labels)
                                       \<subseteq> label_name ` set (runner_labels runner))"
    by (rule ext) (simp add: has_labels_superset)
  with assms show ?thesis by (simp add: runnersByLabels_unfold)
qed

lemma example_labels_github:
  "fst (github_runnersByLabels example_github ''a,b'' example_gh_world)
     = Inr [\<lparr>ref_id = 2, ref_name = ''runner-ab''\<rparr>]"
  by (simp add: runnersByLabels_unfold example_gh_world_def example_getRunners has_labels_def
      runner_a_def runner_ab_def to_ref_def)

text \<open>The GitLab driver returns one entry for every runner of the answer.\<close>

lemma gl_runnersByLabels_Inr:
  assumes "gitlab_runnersByLabels labels (g, w) = (Inr refs, s1)"
  shows "\<exists>base response runners.
           fetch_answer w
             (api_request g ''GET'' base (''/runners?per_page=100?tag_list='' @ labels))
               = Inr response
         \<and> json_body response = Inr (JArray runners)
         \<and> list_all2 (\<lambda>runner ref. gl_to_ref runner = Inr ref) runners refs"
proof -
  from assms obtain res where
    rq: "request (''/runners?per_page=100?tag_list='' @ labels) ''GET'' False (g, w)
           = (Inr res, s1)"
    by (auto simp: gl_runnersByLabels_unfold split: prod.splits sum.splits)
  have ne: "''/runners?per_page=100?tag_list='' @ labels \<noteq> []" by simp
  from request_Inr [OF rq ne] obtain base response j where
    a: "fetch_answer w
          (api_request g ''GET'' base (''/runners?per_page=100?tag_list='' @ labels))
            = Inr response"
       "json_body response = Inr j" "res = Json j"
    by auto
  from assms rq a obtain runners where
    r: "j = JArray runners" "mapE gl_to_ref runners = Inr refs"
    by (auto simp: gl_runnersByLabels_unfold as_array_def
             split: prod.splits sum.splits json.splits)
  from mapE_Inr [OF r(2)] a r show ?thesis by blast
qed

text \<open>
  C3. On the GitLab driver the claim fails. Asked for the labels \<open>a,b\<close>, the driver sends
  \<open>GET /runners?per_page=100?tag_list=a,b\<close> (the second \<open>?\<close> stands where \<open>&\<close> belongs,
  so the query has no parameter \<open>tag_list\<close>) and returns every runner of the answer,
  also the runner whose tag list is \<open>a\<close> alone. The GitHub driver, on the same runners,
  returns the one runner that carries both labels.
\<close>

theorem C3_gitlab_returns_unfiltered:
  "fst (gitlab_runnersByLabels ''a,b'' (example_gitlab, gl_world_of [gl_runner_a, gl_runner_ab]))
     = Inr [\<lparr>gl_ref_id = Some (JNumber 1), gl_ref_name = Some (JString ''gitlab-runner'')\<rparr>,
            \<lparr>gl_ref_id = Some (JNumber 2), gl_ref_name = Some (JString ''gitlab-runner'')\<rparr>]
   \<and> js_prop gl_runner_a ''tag_list'' = Inr (Some (JArray [JString ''a'']))
   \<and> js_prop gl_runner_a ''id'' = Inr (Some (JNumber 1))
   \<and> map req_url
        (fetched (snd (snd (gitlab_runnersByLabels ''a,b''
           (example_gitlab, gl_world_of [gl_runner_a, gl_runner_ab])))))
       = [''https://gitlab.example.com/api/v4/version'',
          ''https://gitlab.example.com/gitlab/api/v4/version'',
          ''https://gitlab.example.com/gitlab/group/api/v4/version'',
          ''https://gitlab.example.com/gitlab/api/v4/runners?per_page=100?tag_list=a,b'']
   \<and> fst (github_runnersByLabels example_github ''a,b'' (gh_world_of [runner_a, runner_ab]))
       = Inr [\<lparr>ref_id = 2, ref_name = ''runner-ab''\<rparr>]"
  using example_gl_labels example_labels_github
    example_listing_request [of "''per_page=100?tag_list=a,b''" "[gl_runner_a, gl_runner_ab]"]
  by (simp add: example_gl_world_def example_gh_world_def gl_runnersByLabels_state
      js_prop_def gl_runner_a_def version_request_def api_request_def example_base_def)

subsection \<open>One page of runners\<close>

lemma first_named_mem:
  "first_named name runners = Some ref \<Longrightarrow> \<exists>y \<in> set runners. ref = to_ref y"
proof -
  assume "first_named name runners = Some ref"
  then obtain y ys where "filter (\<lambda>runner. runner_name runner = name) runners = y # ys"
    and r: "ref = to_ref y"
    by (auto simp: first_named_def split: list.splits)
  then have "y \<in> set (filter (\<lambda>runner. runner_name runner = name) runners)" by simp
  then have "y \<in> set runners" by simp
  with r show ?thesis by blast
qed

lemma getRunners_calls:
  "\<exists>cs. gh_calls (snd (github_getRunners g w)) = gh_calls w @ cs
        \<and> (cs = [] \<or> (\<exists>base call. cs = [(base, call)] \<and> page_size call = Some 100))"
  by (auto simp: getRunners_unfold gh_list_def list_call_def split: sum.splits option.splits)

lemma runnerByName_state: "snd (github_runnerByName g name w) = snd (github_getRunners g w)"
  by (simp add: runnerByName_unfold split: prod.splits sum.splits)

lemma runnersByLabels_state: "snd (github_runnersByLabels g labels w) = snd (github_getRunners g w)"
  by (simp add: runnersByLabels_unfold split: prod.splits sum.splits)

lemma getRunners_page:
  assumes "\<And>base call n. page_size call = Some n \<Longrightarrow>
             runners_answer w base call = Inr (take n listing)
             \<or> (\<exists>e. runners_answer w base call = Inl e)"
    and "github_getRunners g w = (Inr runners, w')"
  shows "runners = take 100 listing"
proof -
  from assms(2) obtain scope base where
    a: "runners_answer w base (list_call scope) = Inr runners"
    by (auto simp: getRunners_unfold gh_list_def split: sum.splits)
  have "page_size (list_call scope) = Some 100"
    by (simp add: list_call_def split: option.splits)
  from assms(1) [OF this, of base] a show ?thesis by auto
qed

lemma gh_late_by_name:
  assumes "\<And>base call n. page_size call = Some n \<Longrightarrow>
             runners_answer w base call = Inr (take n listing)
             \<or> (\<exists>e. runners_answer w base call = Inl e)"
    and "runner_id r \<notin> runner_id ` set (take 100 listing)"
  shows "fst (github_runnerByName g name w) \<noteq> Inr (Some (to_ref r))"
proof
  assume f: "fst (github_runnerByName g name w) = Inr (Some (to_ref r))"
  then obtain runners w' where
    g: "github_getRunners g w = (Inr runners, w')" and
    n: "first_named name runners = Some (to_ref r)"
    by (auto simp: runnerByName_unfold split: prod.splits sum.splits)
  from getRunners_page [OF assms(1) g] have "runners = take 100 listing" .
  with first_named_mem [OF n] obtain y where "y \<in> set (take 100 listing)" "to_ref r = to_ref y"
    by blast
  then have "runner_id r \<in> runner_id ` set (take 100 listing)"
    by (auto simp: to_ref_def)
  with assms(2) show False by simp
qed

lemma gh_late_by_labels:
  assumes "\<And>base call n. page_size call = Some n \<Longrightarrow>
             runners_answer w base call = Inr (take n listing)
             \<or> (\<exists>e. runners_answer w base call = Inl e)"
    and "runner_id r \<notin> runner_id ` set (take 100 listing)"
  shows "to_ref r \<notin> set (results (fst (github_runnersByLabels g labels w)))"
proof
  assume f: "to_ref r \<in> set (results (fst (github_runnersByLabels g labels w)))"
  then obtain runners w' where
    g: "github_getRunners g w = (Inr runners, w')" and
    n: "to_ref r \<in> to_ref ` set (filter (has_labels labels) runners)"
    by (auto simp: runnersByLabels_unfold results_def split: prod.splits sum.splits)
  from getRunners_page [OF assms(1) g] have "runners = take 100 listing" .
  with n obtain y where "y \<in> set (take 100 listing)" "to_ref r = to_ref y"
    by auto
  then have "runner_id r \<in> runner_id ` set (take 100 listing)"
    by (auto simp: to_ref_def)
  with assms(2) show False by simp
qed

lemma gl_to_ref_id: "gl_to_ref runner = Inr ref \<Longrightarrow> js_prop runner ''id'' = Inr (gl_ref_id ref)"
  by (auto simp: gl_to_ref_def split: sum.splits)

lemma gl_late_by_name:
  assumes "\<And>rq response rs. fetch_answer gw rq = Inr response \<Longrightarrow>
             json_body response = Inr (JArray rs) \<Longrightarrow> set rs \<subseteq> set (take 100 gl_listing)"
    and "js_prop x ''id'' \<notin> (\<lambda>y. js_prop y ''id'') ` set (take 100 gl_listing)"
    and "fst (gitlab_runnerByName name (gg, gw)) = Inr (Some ref)"
  shows "Inr (gl_ref_id ref) \<noteq> js_prop x ''id''"
proof -
  from assms(3) have "gitlab_runnerByName name (gg, gw) =
      (Inr (Some ref), snd (gitlab_runnerByName name (gg, gw)))"
    by (metis prod.collapse)
  from gl_runnerByName_Inr [OF this] obtain base response runners runner where
    a: "fetch_answer gw (api_request gg ''GET'' base ''/runners?per_page=100'') = Inr response"
       "json_body response = Inr (JArray runners)" and
    r: "runner \<in> set runners" "gl_to_ref runner = Inr ref"
    by blast
  from assms(1) [OF a] r have "runner \<in> set (take 100 gl_listing)" by blast
  then have "js_prop runner ''id'' \<in> (\<lambda>y. js_prop y ''id'') ` set (take 100 gl_listing)"
    by (rule imageI)
  with gl_to_ref_id [OF r(2)] assms(2) show ?thesis
    by auto
qed

lemma list_all2_set:
  "list_all2 P xs ys \<Longrightarrow> y \<in> set ys \<Longrightarrow> \<exists>x \<in> set xs. P x y"
  by (induction rule: list_all2_induct) auto

lemma gl_late_by_labels:
  assumes "\<And>rq response rs. fetch_answer gw rq = Inr response \<Longrightarrow>
             json_body response = Inr (JArray rs) \<Longrightarrow> set rs \<subseteq> set (take 100 gl_listing)"
    and "js_prop x ''id'' \<notin> (\<lambda>y. js_prop y ''id'') ` set (take 100 gl_listing)"
    and "ref \<in> set (results (fst (gitlab_runnersByLabels labels (gg, gw))))"
  shows "Inr (gl_ref_id ref) \<noteq> js_prop x ''id''"
proof -
  from assms(3) obtain refs where
    "fst (gitlab_runnersByLabels labels (gg, gw)) = Inr refs" "ref \<in> set refs"
    by (cases "fst (gitlab_runnersByLabels labels (gg, gw))") (auto simp: results_def)
  then have "gitlab_runnersByLabels labels (gg, gw) =
      (Inr refs, snd (gitlab_runnersByLabels labels (gg, gw)))"
    by (metis prod.collapse)
  from gl_runnersByLabels_Inr [OF this] obtain base response runners where
    a: "fetch_answer gw
          (api_request gg ''GET'' base (''/runners?per_page=100?tag_list='' @ labels))
            = Inr response"
       "json_body response = Inr (JArray runners)" and
    l: "list_all2 (\<lambda>runner ref. gl_to_ref runner = Inr ref) runners refs"
    by blast
  from list_all2_set [OF l \<open>ref \<in> set refs\<close>] obtain runner where
    r: "runner \<in> set runners" "gl_to_ref runner = Inr ref"
    by blast
  from assms(1) [OF a] r have "runner \<in> set (take 100 gl_listing)" by blast
  then have "js_prop runner ''id'' \<in> (\<lambda>y. js_prop y ''id'') ` set (take 100 gl_listing)"
    by (rule imageI)
  with gl_to_ref_id [OF r(2)] assms(2) show ?thesis
    by auto
qed

lemma request_trace:
  "\<exists>probes rest.
      fetched (snd (snd (request endpoint method raw (g, w)))) = fetched w @ probes @ rest
    \<and> list_all is_probe probes
    \<and> (rest = [] \<or> (\<exists>base. rest = [api_request g method base endpoint]))"
proof -
  have "request endpoint method raw (g, w) =
          (fst (request endpoint method raw (g, w)), snd (request endpoint method raw (g, w)))"
    by simp
  from request_effect [OF this] show ?thesis by blast
qed

lemma gl_lookup_requests:
  "\<exists>probes rest.
      fetched (snd (snd (gitlab_runnerByName name (gg, gw)))) = fetched gw @ probes @ rest
    \<and> list_all is_probe probes
    \<and> (rest = [] \<or> (\<exists>base. rest = [api_request gg ''GET'' base ''/runners?per_page=100'']))"
  "\<exists>probes rest.
      fetched (snd (snd (gitlab_runnersByLabels labels (gg, gw)))) = fetched gw @ probes @ rest
    \<and> list_all is_probe probes
    \<and> (rest = [] \<or> (\<exists>base. rest = [api_request gg ''GET'' base
                                       (''/runners?per_page=100?tag_list='' @ labels)]))"
  unfolding gl_runnerByName_state gl_runnersByLabels_state
  by (rule request_trace)+


text \<open>
  C10. A runner lookup of either driver sends at most one request for runners, after the
  version probes of the GitLab driver: the GitHub list call with \<open>per_page\<close> 100, the
  GitLab \<open>GET /runners?per_page=100\<close> for a name and
  \<open>GET /runners?per_page=100?tag_list=<labels>\<close> for labels; no lookup asks for a second
  page. So on a platform that serves a list call with the first page of its listing (GitHub)
  and answers no array with an entry beyond the first 100 of its listing (GitLab), a runner
  that stands behind the first 100 entries, with an id none of them has, is never the result
  of a lookup by name and never in the result of a lookup by labels.
\<close>

theorem C10_single_page:
  assumes gh_platform:
      "\<forall>base call n. page_size call = Some n \<longrightarrow>
         runners_answer w base call = Inr (take n listing)
         \<or> (\<exists>e. runners_answer w base call = Inl e)"
    and gh_late: "r \<in> set (drop 100 listing)"
      "runner_id r \<notin> runner_id ` set (take 100 listing)"
    and gl_platform:
      "\<forall>rq response rs. fetch_answer gw rq = Inr response \<and>
         json_body response = Inr (JArray rs) \<longrightarrow> set rs \<subseteq> set (take 100 gl_listing)"
    and gl_late: "x \<in> set (drop 100 gl_listing)"
      "js_prop x ''id'' \<notin> (\<lambda>y. js_prop y ''id'') ` set (take 100 gl_listing)"
  shows
    "(\<exists>cs. gh_calls (snd (github_runnerByName g name w)) = gh_calls w @ cs
        \<and> (cs = [] \<or> (\<exists>base call. cs = [(base, call)] \<and> page_size call = Some 100)))
   \<and> (\<exists>cs. gh_calls (snd (github_runnersByLabels g labels w)) = gh_calls w @ cs
        \<and> (cs = [] \<or> (\<exists>base call. cs = [(base, call)] \<and> page_size call = Some 100)))
   \<and> (\<exists>probes rest.
        fetched (snd (snd (gitlab_runnerByName name (gg, gw)))) = fetched gw @ probes @ rest
        \<and> list_all is_probe probes
        \<and> (rest = [] \<or>
             (\<exists>base. rest = [api_request gg ''GET'' base ''/runners?per_page=100''])))
   \<and> (\<exists>probes rest.
        fetched (snd (snd (gitlab_runnersByLabels labels (gg, gw)))) = fetched gw @ probes @ rest
        \<and> list_all is_probe probes
        \<and> (rest = [] \<or>
             (\<exists>base. rest = [api_request gg ''GET'' base
                                (''/runners?per_page=100?tag_list='' @ labels)])))
   \<and> fst (github_runnerByName g name w) \<noteq> Inr (Some (to_ref r))
   \<and> to_ref r \<notin> set (results (fst (github_runnersByLabels g labels w)))
   \<and> (\<forall>ref. fst (gitlab_runnerByName name (gg, gw)) = Inr (Some ref) \<longrightarrow>
          Inr (gl_ref_id ref) \<noteq> js_prop x ''id'')
   \<and> (\<forall>ref \<in> set (results (fst (gitlab_runnersByLabels labels (gg, gw)))).
          Inr (gl_ref_id ref) \<noteq> js_prop x ''id'')"
proof -
  from gh_platform have ghp: "\<And>base call n. page_size call = Some n \<Longrightarrow>
         runners_answer w base call = Inr (take n listing)
         \<or> (\<exists>e. runners_answer w base call = Inl e)"
    by blast
  from gl_platform have glp: "\<And>rq response rs. fetch_answer gw rq = Inr response \<Longrightarrow>
         json_body response = Inr (JArray rs) \<Longrightarrow> set rs \<subseteq> set (take 100 gl_listing)"
    by blast
  show ?thesis
  proof (intro conjI allI impI ballI)
  show "\<exists>cs. gh_calls (snd (github_runnerByName g name w)) = gh_calls w @ cs
        \<and> (cs = [] \<or> (\<exists>base call. cs = [(base, call)] \<and> page_size call = Some 100))"
    unfolding runnerByName_state by (rule getRunners_calls)
  show "\<exists>cs. gh_calls (snd (github_runnersByLabels g labels w)) = gh_calls w @ cs
        \<and> (cs = [] \<or> (\<exists>base call. cs = [(base, call)] \<and> page_size call = Some 100))"
    unfolding runnersByLabels_state by (rule getRunners_calls)
  show "\<exists>probes rest.
        fetched (snd (snd (gitlab_runnerByName name (gg, gw)))) = fetched gw @ probes @ rest
        \<and> list_all is_probe probes
        \<and> (rest = [] \<or>
             (\<exists>base. rest = [api_request gg ''GET'' base ''/runners?per_page=100'']))"
    by (rule gl_lookup_requests)
  show "\<exists>probes rest.
        fetched (snd (snd (gitlab_runnersByLabels labels (gg, gw)))) = fetched gw @ probes @ rest
        \<and> list_all is_probe probes
        \<and> (rest = [] \<or>
             (\<exists>base. rest = [api_request gg ''GET'' base
                                (''/runners?per_page=100?tag_list='' @ labels)]))"
    by (rule gl_lookup_requests)
  show "fst (github_runnerByName g name w) \<noteq> Inr (Some (to_ref r))"
    by (rule gh_late_by_name [OF ghp gh_late(2)])
  show "to_ref r \<notin> set (results (fst (github_runnersByLabels g labels w)))"
    by (rule gh_late_by_labels [OF ghp gh_late(2)])
next
  fix ref
  assume "fst (gitlab_runnerByName name (gg, gw)) = Inr (Some ref)"
  from gl_late_by_name [OF glp gl_late(2) this]
  show "Inr (gl_ref_id ref) \<noteq> js_prop x ''id''" .
next
  fix ref
  assume "ref \<in> set (results (fst (gitlab_runnersByLabels labels (gg, gw))))"
  from gl_late_by_labels [OF glp gl_late(2) this]
  show "Inr (gl_ref_id ref) \<noteq> js_prop x ''id''" .
qed
qed

lemma long_listing_page:
  "take 100 long_listing =
     map (\<lambda>i. \<lparr>runner_id = int i, runner_name = ''runner'',
                runner_labels = [\<lparr>label_name = ''cml''\<rparr>]\<rparr>) [0 ..< 100]"
  "drop 100 long_listing = [late_runner]"
  by (simp_all add: long_listing_def)

lemma gl_long_listing_page:
  "take 100 gl_long_listing =
     map (\<lambda>i. JObject [(''id'', JNumber (int i)), (''description'', JString ''runner''),
                        (''name'', JString ''gitlab-runner''),
                        (''tag_list'', JArray [JString ''cml''])]) [0 ..< 100]"
  "drop 100 gl_long_listing = [gl_late_runner]"
  by (simp_all add: gl_long_listing_def)

lemma late_named_nowhere:
  "fst (github_runnerByName example_github ''late'' (gh_world_of long_listing)) = Inr None"
  by (simp add: runnerByName_unfold example_getRunners long_listing_page first_named_def
      filter_map o_def)

lemma filterE_map_none:
  "(\<And>x. p (f x) = Inr False) \<Longrightarrow> filterE p (map f xs) = Inr []"
  by (induction xs) simp_all

lemma gl_late_named_nowhere:
  "fst (gitlab_runnerByName ''late'' (example_gitlab, gl_world_of gl_long_listing)) = Inr None"
proof -
  have "filterE (name_matches ''late'') (take 100 gl_long_listing) = Inr []"
    unfolding gl_long_listing_page
    by (rule filterE_map_none) (simp add: name_matches_def js_prop_def)
  with example_listing_request [of "''per_page=100''" gl_long_listing] show ?thesis
    by (simp add: gl_runnerByName_unfold as_array_def)
qed

theorem C10_single_page_witness:
  "late_runner \<in> set long_listing
   \<and> fst (github_runnerByName example_github ''late'' (gh_world_of long_listing)) = Inr None
   \<and> fst (github_runnerByName example_github ''late'' (gh_world_of long_listing))
       \<noteq> Inr (Some (to_ref late_runner))
   \<and> to_ref late_runner
       \<notin> set (results (fst (github_runnersByLabels example_github ''cml''
                               (gh_world_of long_listing))))
   \<and> gl_late_runner \<in> set gl_long_listing
   \<and> fst (gitlab_runnerByName ''late'' (example_gitlab, gl_world_of gl_long_listing)) = Inr None
   \<and> Some (JNumber 100)
       \<notin> gl_ref_id ` set (results (fst (gitlab_runnersByLabels ''cml''
                               (example_gitlab, gl_world_of gl_long_listing))))"
proof -
  have p: "\<forall>base call n. page_size call = Some n \<longrightarrow>
         runners_answer (gh_world_of long_listing) base call = Inr (take n long_listing)
         \<or> (\<exists>e. runners_answer (gh_world_of long_listing) base call = Inl e)"
    by (simp add: gh_world_of_def)
  have l: "late_runner \<in> set (drop 100 long_listing)"
    by (simp add: long_listing_page)
  have i: "runner_id late_runner \<notin> runner_id ` set (take 100 long_listing)"
    by (auto simp: long_listing_page late_runner_def)
  have gp: "\<forall>rq response rs. fetch_answer (gl_world_of gl_long_listing) rq = Inr response \<and>
         json_body response = Inr (JArray rs) \<longrightarrow> set rs \<subseteq> set (take 100 gl_long_listing)"
    by (auto simp: gl_world_of_def split: if_splits)
  have gl: "gl_late_runner \<in> set (drop 100 gl_long_listing)"
    by (simp add: gl_long_listing_page)
  have gi: "js_prop gl_late_runner ''id''
              \<notin> (\<lambda>y. js_prop y ''id'') ` set (take 100 gl_long_listing)"
    by (auto simp: gl_long_listing_page gl_late_runner_def js_prop_def)
  have id: "js_prop gl_late_runner ''id'' = Inr (Some (JNumber 100))"
    by (simp add: gl_late_runner_def js_prop_def)
  from C10_single_page [of "gh_world_of long_listing" long_listing late_runner
      "gl_world_of gl_long_listing" gl_long_listing gl_late_runner
      example_github "''late''" "''cml''" example_gitlab, OF p l i gp gl gi]
  have a: "fst (github_runnerByName example_github ''late'' (gh_world_of long_listing))
             \<noteq> Inr (Some (to_ref late_runner))"
    and b: "to_ref late_runner
       \<notin> set (results (fst (github_runnersByLabels example_github ''cml''
                               (gh_world_of long_listing))))"
    and c: "\<forall>ref \<in> set (results (fst (gitlab_runnersByLabels ''cml''
                               (example_gitlab, gl_world_of gl_long_listing)))).
              Inr (gl_ref_id ref) \<noteq> js_prop gl_late_runner ''id''"
    by blast+
  from c have c': "Some (JNumber 100)
       \<notin> gl_ref_id ` set (results (fst (gitlab_runnersByLabels ''cml''
                               (example_gitlab, gl_world_of gl_long_listing))))"
    by (auto simp: id)
  have m: "late_runner \<in> set long_listing" "gl_late_runner \<in> set gl_long_listing"
    by (simp_all add: long_listing_def gl_long_listing_def)
  from a b c' m late_named_nowhere gl_late_named_nowhere show ?thesis by blast
qed

subsection \<open>Discovery of the GitLab API base\<close>

lemma str_join_snoc:
  "xs \<noteq> [] \<Longrightarrow> str_join sep (xs @ [y]) = str_join sep xs @ sep @ y"
proof (induction sep xs rule: str_join.induct)
  case (1 sep)
  then show ?case by simp
next
  case (2 sep x)
  then show ?case by simp
next
  case (3 sep x y' ys)
  then show ?case by simp
qed

lemma str_join_take_Suc:
  assumes "i < length segs"
  shows "str_join sep (x # take (Suc i) segs) = str_join sep (x # take i segs) @ sep @ segs ! i"
proof -
  have "x # take (Suc i) segs = (x # take i segs) @ [segs ! i]"
    using assms by (simp add: take_Suc_conv_app_nth)
  moreover have "str_join sep ((x # take i segs) @ [segs ! i])
      = str_join sep (x # take i segs) @ sep @ segs ! i"
    by (rule str_join_snoc) simp
  ultimately show ?thesis by simp
qed

lemma str_join_take_prefix:
  assumes "sep \<noteq> []" and "j \<le> length segs" and "i < j"
  shows "strict_prefix (str_join sep (x # take i segs)) (str_join sep (x # take j segs))"
  using assms(2,3)
proof (induction j)
  case 0
  then show ?case by simp
next
  case (Suc j)
  have step: "strict_prefix (str_join sep (x # take j segs)) (str_join sep (x # take (Suc j) segs))"
    using Suc.prems assms(1) by (simp add: str_join_take_Suc strict_prefix_def)
  show ?case
  proof (cases "i = j")
    case True
    with step show ?thesis by simp
  next
    case False
    with Suc have "strict_prefix (str_join sep (x # take i segs)) (str_join sep (x # take j segs))"
      by simp
    with step show ?thesis by (metis strict_prefix_def prefix_order.dual_order.strict_trans)
  qed
qed

lemma candidates_nth:
  "k < length (segments (pathname u)) \<Longrightarrow>
     candidates u ! k = str_join ''/'' (origin u # take k (segments (pathname u)))"
  by (simp add: candidates_def)

lemma candidates_length: "length (candidates u) = length (segments (pathname u))"
  by (simp add: candidates_def)

lemma candidates_ordered:
  assumes "i < j" and "j < length (candidates u)"
  shows "strict_prefix (candidates u ! i) (candidates u ! j)"
  using assms
  by (simp add: candidates_length candidates_nth str_join_take_prefix)

lemma find_first:
  assumes "k < length xs" and "P (xs ! k)" and "\<forall>i<k. \<not> P (xs ! i)"
  shows "find P xs = Some (xs ! k)"
  using assms by (auto simp: find_Some_iff)

lemma find_none: "\<forall>x \<in> set xs. \<not> P x \<Longrightarrow> find P xs = None"
  by (simp add: find_None_iff)

lemma repoBase_first:
  assumes "detected_base g = None" and "gl_new_URL w (gl_repo g) = Some u" and "origin u \<noteq> []"
    and "k < length (candidates u)" and "responds g w (candidates u ! k)"
    and "\<forall>i<k. \<not> responds g w (candidates u ! i)"
  shows "fst (repoBase (g, w)) = Inr (candidates u ! k)"
proof -
  from assms(1) have "\<not> truthy_str (detected_base g)" by (simp add: truthy_str_def)
  from repoBase_fresh [OF this assms(2,3)] find_first [OF assms(4-6)]
  show ?thesis by simp
qed

lemma repoBase_none:
  assumes "detected_base g = None" and "gl_new_URL w (gl_repo g) = Some u" and "origin u \<noteq> []"
    and "\<forall>p \<in> set (candidates u). \<not> responds g w p"
  shows "fst (repoBase (g, w)) = Inl (Error ''GitLab API not found'')"
proof -
  from assms(1) have "\<not> truthy_str (detected_base g)" by (simp add: truthy_str_def)
  from repoBase_fresh [OF this assms(2,3)] find_none [OF assms(4)]
  show ?thesis by simp
qed

lemma repoBase_probes:
  assumes "detected_base g = None" and "gl_new_URL w (gl_repo g) = Some u" and "origin u \<noteq> []"
  shows "fetched (snd (snd (repoBase (g, w)))) = fetched w @ map (version_request g) (candidates u)"
proof -
  from assms(1) have "\<not> truthy_str (detected_base g)" by (simp add: truthy_str_def)
  from repoBase_fresh [OF this assms(2,3)]
  show ?thesis by (simp split: option.splits)
qed

lemma repoBase_two_shorter:
  assumes "detected_base g = None" and "gl_new_URL w (gl_repo g) = Some u" and "origin u \<noteq> []"
    and "length (segments (pathname u)) = k + 2"
    and "\<forall>p \<in> set (candidates u).
           responds g w p \<longleftrightarrow> p = str_join ''/'' (origin u # take k (segments (pathname u)))"
  shows "fst (repoBase (g, w)) = Inr (str_join ''/'' (origin u # take k (segments (pathname u))))"
proof -
  let ?b = "str_join ''/'' (origin u # take k (segments (pathname u)))"
  from assms(4) have k: "k < length (candidates u)" by (simp add: candidates_length)
  then have n: "candidates u ! k = ?b" by (simp add: candidates_length candidates_nth)
  from k have "candidates u ! k \<in> set (candidates u)" by simp
  with assms(5) n have r: "responds g w (candidates u ! k)" by simp
  have "\<not> responds g w (candidates u ! i)" if "i < k" for i
  proof -
    from that k have "candidates u ! i \<in> set (candidates u)" by simp
    moreover from candidates_ordered [OF that k] n have "candidates u ! i \<noteq> ?b"
      by (auto simp: strict_prefix_def)
    ultimately show ?thesis using assms(5) by simp
  qed
  then have "\<forall>i<k. \<not> responds g w (candidates u ! i)" by blast
  from repoBase_first [OF assms(1-3) k r this] n show ?thesis by simp
qed

lemma repoBase_later:
  assumes "repoBase (g, w) = (Inr base, (g', w'))"
  shows "repoBase (g', w'') = (Inr base, (g', w''))"
  using repoBase_Inr [OF assms] by (simp add: repoBase_hit)

text \<open>
  C9. On a fresh GitLab driver whose repository address parses, \<open>repoBase\<close> probes the
  version endpoint under the origin followed by the first \<open>index\<close> path segments, for
  every index of the segments; each probed path is a proper prefix of the next. It returns
  the first probed path that answers, which is the shortest one; when the API root is the
  only probed path that answers and is two segments shorter than the address, it returns
  that root. Once it has returned a base, every later call on the instance returns the same
  base and sends nothing. When no probed path answers it fails with
  \<open>GitLab API not found\<close>.
\<close>

theorem C9_repoBase:
  assumes "detected_base g = None" and "gl_new_URL w (gl_repo g) = Some u" and "origin u \<noteq> []"
  shows
    "fetched (snd (snd (repoBase (g, w)))) = fetched w @ map (version_request g) (candidates u)
   \<and> (\<forall>i j. i < j \<and> j < length (candidates u) \<longrightarrow>
          strict_prefix (candidates u ! i) (candidates u ! j))
   \<and> (\<forall>k. k < length (candidates u) \<and> responds g w (candidates u ! k)
            \<and> (\<forall>i<k. \<not> responds g w (candidates u ! i)) \<longrightarrow>
          fst (repoBase (g, w)) = Inr (candidates u ! k))
   \<and> (\<forall>k. length (segments (pathname u)) = k + 2
            \<and> (\<forall>p \<in> set (candidates u).
                  responds g w p \<longleftrightarrow>
                  p = str_join ''/'' (origin u # take k (segments (pathname u)))) \<longrightarrow>
          fst (repoBase (g, w))
            = Inr (str_join ''/'' (origin u # take k (segments (pathname u)))))
   \<and> (\<forall>base g' w' w''. repoBase (g, w) = (Inr base, (g', w')) \<longrightarrow>
          repoBase (g', w'') = (Inr base, (g', w'')))
   \<and> ((\<forall>p \<in> set (candidates u). \<not> responds g w p) \<longrightarrow>
          fst (repoBase (g, w)) = Inl (Error ''GitLab API not found''))"
  using repoBase_probes [OF assms] candidates_ordered [of _ _ u]
    repoBase_first [OF assms] repoBase_two_shorter [OF assms] repoBase_later [of g w]
    repoBase_none [OF assms]
  by (intro conjI allI impI) blast+


lemma example_segments:
  "segments ''/gitlab/group/project'' = [''gitlab'', ''group'', ''project'']"
  by (simp add: segments_def)

theorem C9_repoBase_witness:
  "gl_repo example_gitlab = ''https://gitlab.example.com/gitlab/group/project''
   \<and> fst (repoBase (example_gitlab, example_gl_world)) = Inr ''https://gitlab.example.com/gitlab''
   \<and> map req_url (fetched (snd (snd (repoBase (example_gitlab, example_gl_world)))))
       = [''https://gitlab.example.com/api/v4/version'',
          ''https://gitlab.example.com/gitlab/api/v4/version'',
          ''https://gitlab.example.com/gitlab/group/api/v4/version'']
   \<and> repoBase (snd (repoBase (example_gitlab, example_gl_world)))
       = (Inr ''https://gitlab.example.com/gitlab'',
          snd (repoBase (example_gitlab, example_gl_world)))
   \<and> fst (repoBase (example_gitlab, offline_gl_world))
       = Inl (Error ''GitLab API not found'')"
proof -
  let ?u = "\<lparr>origin = ''https://gitlab.example.com'', host = ''gitlab.example.com'',
             pathname = ''/gitlab/group/project''\<rparr>"
  let ?st = "(example_gitlab, example_gl_world)"
  have f: "detected_base example_gitlab = None" by (simp add: example_gitlab_def)
  have u: "gl_new_URL example_gl_world (gl_repo example_gitlab) = Some ?u"
    "gl_new_URL offline_gl_world (gl_repo example_gitlab) = Some ?u"
    using example_candidates(1) [of "[]"]
    by (simp_all add: example_gl_world_def gl_world_of_def offline_gl_world_def)
  have o: "origin ?u \<noteq> []" by simp
  have n: "length (segments (pathname ?u)) = 1 + 2" by (simp add: example_segments)
  have b: "str_join ''/'' (origin ?u # take 1 (segments (pathname ?u)))
             = ''https://gitlab.example.com/gitlab''"
    by (simp add: example_segments)
  have r: "\<forall>p \<in> set (candidates ?u).
             responds example_gitlab example_gl_world p \<longleftrightarrow>
             p = str_join ''/'' (origin ?u # take 1 (segments (pathname ?u)))"
    unfolding b by (simp add: example_candidates(2) example_responds example_gl_world_def)
  have off: "\<forall>p \<in> set (candidates ?u). \<not> responds example_gitlab offline_gl_world p"
    by (simp add: responds_def offline_gl_world_def)
  note online = C9_repoBase [OF f u(1) o]
  note offline = C9_repoBase [OF f u(2) o]
  from online n r b have base: "fst (repoBase ?st) = Inr ''https://gitlab.example.com/gitlab''"
    by metis
  from online have probes: "fetched (snd (snd (repoBase ?st)))
      = fetched example_gl_world @ map (version_request example_gitlab) (candidates ?u)"
    by blast
  have sent: "map req_url (fetched (snd (snd (repoBase ?st))))
       = [''https://gitlab.example.com/api/v4/version'',
          ''https://gitlab.example.com/gitlab/api/v4/version'',
          ''https://gitlab.example.com/gitlab/group/api/v4/version'']"
    unfolding probes
    by (simp add: example_candidates(2) version_request_def example_gl_world_def gl_world_of_def)
  from base have "repoBase ?st = (Inr ''https://gitlab.example.com/gitlab'',
      (fst (snd (repoBase ?st)), snd (snd (repoBase ?st))))"
    by (metis prod.collapse)
  with online have "repoBase (fst (snd (repoBase ?st)), snd (snd (repoBase ?st)))
      = (Inr ''https://gitlab.example.com/gitlab'',
         (fst (snd (repoBase ?st)), snd (snd (repoBase ?st))))"
    by blast
  then have again: "repoBase (snd (repoBase ?st))
      = (Inr ''https://gitlab.example.com/gitlab'', snd (repoBase ?st))"
    by simp
  from offline off have none: "fst (repoBase (example_gitlab, offline_gl_world))
       = Inl (Error ''GitLab API not found'')"
    by blast
  have "gl_repo example_gitlab = ''https://gitlab.example.com/gitlab/group/project''"
    by (simp add: example_gitlab_def)
  with base sent again none show ?thesis by blast
qed

subsection \<open>Running the pull request automation twice\<close>

lemma headSha_query: "snd (headSha c w) = w"
  by (simp add: headSha_def bind_def lift_def ret_def exec_query_def
      split: sum.splits option.splits)

lemma branch_query: "snd (branch c w) = w"
  by (simp add: branch_def bind_def lift_def ret_def exec_query_def
      split: sum.splits option.splits)

lemma driver_prs_query: "snd (driver_prs d w) = w"
  by (simp add: driver_prs_def)

lemma create_pr_effect:
  "create_pr num c d md sha tgt src w =
     (map_sum id (renderPr num c md)
        (fst (driver_prCreate d
           \<lparr>pr_source = src, pr_target = tgt,
            pr_title = ''CML PR for '' @ tgt @ '' '' @ shaShort sha,
            pr_description = ''\<newline>Automated commits for '' @ cml_repo c @ ''/commit/'' @ sha @
                             '' created by CML.\<newline>  ''\<rparr> w)),
      w\<lparr>history := history w @
         [DriverPrCreate d
           \<lparr>pr_source = src, pr_target = tgt,
            pr_title = ''CML PR for '' @ tgt @ '' '' @ shaShort sha,
            pr_description = ''\<newline>Automated commits for '' @ cml_repo c @ ''/commit/'' @ sha @
                             '' created by CML.\<newline>  ''\<rparr>]\<rparr>)"
  by (simp add: create_pr_def Let_def bind_def ret_def driver_prCreate_def
      split: sum.splits driver.splits)

text \<open>A run that finds the source branch on the remote: what it does rests on the search
  through \<open>driver.prs()\<close> and on the url of the entry found.\<close>

lemma prCreate_branch_exists:
  assumes "getDriver c = Inr d"
    and "status_answer w (history w) = Inr files" and "files \<noteq> []"
    and "globby_answer w (history w)
           (case opt_globs opts of None \<Rightarrow> [''dvc.lock'', ''.gitignore''] | Some gs \<Rightarrow> gs)
         = Inr globbed"
    and "filter (\<lambda>path. path \<in> set files) globbed \<noteq> []"
    and "fst (headSha c w) = Inr sha" and "fst (branch c w) = Inr tgt"
    and "exec_answer w (history w)
           (ls_remote (case opt_remote opts of None \<Rightarrow> GIT_REMOTE | Some r \<Rightarrow> r)
              (source_branch tgt sha)) = Inr out"
    and "str_includes out (source_branch tgt sha)"
    and "fst (driver_prs d w) = Inr prs"
  shows "prCreate num c opts w =
           (case find (pr_matches num (source_branch tgt sha) tgt) prs of
              None \<Rightarrow> create_pr num c d (opt_md opts) sha tgt (source_branch tgt sha) w
            | Some pr \<Rightarrow>
                if js_truthy (url pr) then (Inr (renderPr num c (opt_md opts) (url pr)), w)
                else create_pr num c d (opt_md opts) sha tgt (source_branch tgt sha) w)"
proof -
  have h: "headSha c w = (Inr sha, w)"
    using assms(6) headSha_query [of c w] by (metis prod.collapse)
  have b: "branch c w = (Inr tgt, w)"
    using assms(7) branch_query [of c w] by (metis prod.collapse)
  have p: "driver_prs d w = (Inr prs, w)"
    using assms(10) driver_prs_query [of d w] by (metis prod.collapse)
  show ?thesis
    using assms(1-5,8,9)
    by (simp add: prCreate_def bind_def lift_def ret_def Let_def git_status_def globby_def
        h b p exec_query_def split: option.splits)
qed

text \<open>When the entry found carries a url, the run returns it and changes nothing.\<close>

lemma prCreate_existing:
  assumes "getDriver c = Inr d"
    and "status_answer w (history w) = Inr files" and "files \<noteq> []"
    and "globby_answer w (history w)
           (case opt_globs opts of None \<Rightarrow> [''dvc.lock'', ''.gitignore''] | Some gs \<Rightarrow> gs)
         = Inr globbed"
    and "filter (\<lambda>path. path \<in> set files) globbed \<noteq> []"
    and "fst (headSha c w) = Inr sha" and "fst (branch c w) = Inr tgt"
    and "exec_answer w (history w)
           (ls_remote (case opt_remote opts of None \<Rightarrow> GIT_REMOTE | Some r \<Rightarrow> r)
              (source_branch tgt sha)) = Inr out"
    and "str_includes out (source_branch tgt sha)"
    and "fst (driver_prs d w) = Inr prs"
    and "find (pr_matches num (source_branch tgt sha) tgt) prs = Some pr"
    and "js_truthy (url pr)"
  shows "prCreate num c opts w = (Inr (renderPr num c (opt_md opts) (url pr)), w)"
  using prCreate_branch_exists [OF assms(1-10), of num] assms(11,12) by simp

text \<open>When it carries none, the run asks the driver for a new pull request.\<close>

lemma prCreate_found_without_url:
  assumes "getDriver c = Inr d"
    and "status_answer w (history w) = Inr files" and "files \<noteq> []"
    and "globby_answer w (history w)
           (case opt_globs opts of None \<Rightarrow> [''dvc.lock'', ''.gitignore''] | Some gs \<Rightarrow> gs)
         = Inr globbed"
    and "filter (\<lambda>path. path \<in> set files) globbed \<noteq> []"
    and "fst (headSha c w) = Inr sha" and "fst (branch c w) = Inr tgt"
    and "exec_answer w (history w)
           (ls_remote (case opt_remote opts of None \<Rightarrow> GIT_REMOTE | Some r \<Rightarrow> r)
              (source_branch tgt sha)) = Inr out"
    and "str_includes out (source_branch tgt sha)"
    and "fst (driver_prs d w) = Inr prs"
    and "find (pr_matches num (source_branch tgt sha) tgt) prs = Some pr"
    and "\<not> js_truthy (url pr)"
  shows "prCreate num c opts w =
           create_pr num c d (opt_md opts) sha tgt (source_branch tgt sha) w"
  using prCreate_branch_exists [OF assms(1-10), of num] assms(11,12) by simp

text \<open>The GitLab example.\<close>

lemma example_gitlab_getDriver: "getDriver example_gitlab_cml = Inr example_gitlab_driver"
  by (simp add: getDriver_def example_gitlab_cml_def example_gitlab_driver_def GITHUB_def
      GITLAB_def new_Gitlab_def)

lemma example_gitlab_prs:
  "driver_prs example_gitlab_driver ((example_gitlab_world ''web_url'' created)\<lparr>history := h\<rparr>) =
     (Inr [\<lparr>url = None, source = Some (JString ''main-cml-pr-abcdef12''),
            target = Some (JString ''main'')\<rparr>],
      (example_gitlab_world ''web_url'' created)\<lparr>history := h\<rparr>)"
  "driver_prs example_gitlab_driver ((example_gitlab_world ''webUrl'' created)\<lparr>history := h\<rparr>) =
     (Inr [\<lparr>url = Some (JString
               ''https://gitlab.example.com/gitlab/group/project/-/merge_requests/7''),
            source = Some (JString ''main-cml-pr-abcdef12''),
            target = Some (JString ''main'')\<rparr>],
      (example_gitlab_world ''webUrl'' created)\<lparr>history := h\<rparr>)"
  by (simp_all add: driver_prs_def example_gitlab_driver_def example_gitlab_world_def
      js_array_def example_mr_def gitlab_pr_def js_prop_def)

lemma example_gitlab_found:
  "find (pr_matches num (source_branch ''main'' ''abcdef1234'') ''main'')
     [\<lparr>url = u, source = Some (JString ''main-cml-pr-abcdef12''),
       target = Some (JString ''main'')\<rparr>]
   = Some \<lparr>url = u, source = Some (JString ''main-cml-pr-abcdef12''),
           target = Some (JString ''main'')\<rparr>"
  by (simp add: pr_matches_def source_branch_def shaShort_take js_template_def
      str_endsWith_def)

lemma example_gitlab_run:
  "prCreate num example_gitlab_cml default_opts
     ((example_gitlab_world ''web_url'' created)\<lparr>history := h\<rparr>) =
     ((case created of Inl e \<Rightarrow> Inl e | Inr data \<Rightarrow> js_prop data ''webUrl''),
      (example_gitlab_world ''web_url'' created)\<lparr>history :=
         h @ [DriverPrCreate example_gitlab_driver example_mr_opts]\<rparr>)"
proof -
  let ?w = "(example_gitlab_world ''web_url'' created)\<lparr>history := h\<rparr>"
  let ?pr = "\<lparr>url = None, source = Some (JString ''main-cml-pr-abcdef12''),
              target = Some (JString ''main'')\<rparr>"
  have 1: "status_answer ?w (history ?w) = Inr [''dvc.lock'', ''metrics.json'']"
    and 2: "[''dvc.lock'', ''metrics.json''] \<noteq> []"
    and 3: "globby_answer ?w (history ?w)
             (case opt_globs default_opts of None \<Rightarrow> [''dvc.lock'', ''.gitignore'']
              | Some gs \<Rightarrow> gs) = Inr [''dvc.lock'', ''.gitignore'']"
    and 4: "filter (\<lambda>path. path \<in> set [''dvc.lock'', ''metrics.json''])
              [''dvc.lock'', ''.gitignore''] \<noteq> []"
    by (simp_all add: example_gitlab_world_def default_opts_def)
  have 5: "fst (headSha example_gitlab_cml ?w) = Inr ''abcdef1234''"
    by (simp add: headSha_def bind_def lift_def ret_def example_gitlab_getDriver driver_sha_def
        example_gitlab_world_def example_gitlab_driver_def)
  have 6: "fst (branch example_gitlab_cml ?w) = Inr ''main''"
    by (simp add: branch_def bind_def lift_def ret_def example_gitlab_getDriver
        driver_branch_def example_gitlab_world_def example_gitlab_driver_def)
  have s: "source_branch ''main'' ''abcdef1234'' = ''main-cml-pr-abcdef12''"
    by (simp add: source_branch_def shaShort_take)
  have 7: "exec_answer ?w (history ?w)
           (ls_remote (case opt_remote default_opts of None \<Rightarrow> GIT_REMOTE | Some r \<Rightarrow> r)
              (source_branch ''main'' ''abcdef1234''))
         = Inr ''0a1b2c3d refs/heads/main-cml-pr-abcdef12''"
    by (simp add: s example_gitlab_world_def default_opts_def GIT_REMOTE_def)
  have 8: "str_includes ''0a1b2c3d refs/heads/main-cml-pr-abcdef12''
             (source_branch ''main'' ''abcdef1234'')"
    by (simp add: s str_includes_def sublist_Cons_right)
  have 9: "fst (driver_prs example_gitlab_driver ?w) = Inr [?pr]"
    by (simp add: example_gitlab_prs(1))
  have 10: "\<not> js_truthy (url ?pr)" by (simp add: js_truthy_def)
  have "prCreate num example_gitlab_cml default_opts ?w =
          create_pr num example_gitlab_cml example_gitlab_driver (opt_md default_opts)
            ''abcdef1234'' ''main'' (source_branch ''main'' ''abcdef1234'') ?w"
    by (rule prCreate_found_without_url
          [OF example_gitlab_getDriver 1 2 3 4 5 6 7 8 9 example_gitlab_found 10])
  then have "prCreate num example_gitlab_cml default_opts ?w =
      (map_sum id (renderPr num example_gitlab_cml False)
         (fst (driver_prCreate example_gitlab_driver example_mr_opts ?w)),
       ?w\<lparr>history := history ?w @ [DriverPrCreate example_gitlab_driver example_mr_opts]\<rparr>)"
    by (simp add: create_pr_effect s shaShort_take default_opts_def example_mr_opts_def
          example_gitlab_cml_def)
  moreover have "fst (driver_prCreate example_gitlab_driver example_mr_opts ?w) =
      (case created of Inl e \<Rightarrow> Inl e | Inr data \<Rightarrow> js_prop data ''webUrl'')"
    by (simp add: driver_prCreate_def example_gitlab_driver_def example_gitlab_world_def)
  moreover have "map_sum id (renderPr num example_gitlab_cml False) r = r" for r
    by (cases r) (simp_all add: renderPr_def)
  ultimately show ?thesis by simp
qed

lemma example_gitlab_reuse:
  "prCreate num example_gitlab_cml default_opts (example_gitlab_world ''webUrl'' created) =
     (Inr (Some (JString ''https://gitlab.example.com/gitlab/group/project/-/merge_requests/7'')),
      example_gitlab_world ''webUrl'' created)"
proof -
  let ?w = "example_gitlab_world ''webUrl'' created"
  let ?pr = "\<lparr>url = Some (JString
                 ''https://gitlab.example.com/gitlab/group/project/-/merge_requests/7''),
              source = Some (JString ''main-cml-pr-abcdef12''),
              target = Some (JString ''main'')\<rparr>"
  have w: "?w\<lparr>history := []\<rparr> = ?w" by (simp add: example_gitlab_world_def)
  have 1: "status_answer ?w (history ?w) = Inr [''dvc.lock'', ''metrics.json'']"
    and 2: "[''dvc.lock'', ''metrics.json''] \<noteq> []"
    and 3: "globby_answer ?w (history ?w)
             (case opt_globs default_opts of None \<Rightarrow> [''dvc.lock'', ''.gitignore'']
              | Some gs \<Rightarrow> gs) = Inr [''dvc.lock'', ''.gitignore'']"
    and 4: "filter (\<lambda>path. path \<in> set [''dvc.lock'', ''metrics.json''])
              [''dvc.lock'', ''.gitignore''] \<noteq> []"
    by (simp_all add: example_gitlab_world_def default_opts_def)
  have 5: "fst (headSha example_gitlab_cml ?w) = Inr ''abcdef1234''"
    by (simp add: headSha_def bind_def lift_def ret_def example_gitlab_getDriver driver_sha_def
        example_gitlab_world_def example_gitlab_driver_def)
  have 6: "fst (branch example_gitlab_cml ?w) = Inr ''main''"
    by (simp add: branch_def bind_def lift_def ret_def example_gitlab_getDriver
        driver_branch_def example_gitlab_world_def example_gitlab_driver_def)
  have s: "source_branch ''main'' ''abcdef1234'' = ''main-cml-pr-abcdef12''"
    by (simp add: source_branch_def shaShort_take)
  have 7: "exec_answer ?w (history ?w)
           (ls_remote (case opt_remote default_opts of None \<Rightarrow> GIT_REMOTE | Some r \<Rightarrow> r)
              (source_branch ''main'' ''abcdef1234''))
         = Inr ''0a1b2c3d refs/heads/main-cml-pr-abcdef12''"
    by (simp add: s example_gitlab_world_def default_opts_def GIT_REMOTE_def)
  have 8: "str_includes ''0a1b2c3d refs/heads/main-cml-pr-abcdef12''
             (source_branch ''main'' ''abcdef1234'')"
    by (simp add: s str_includes_def sublist_Cons_right)
  have 9: "fst (driver_prs example_gitlab_driver ?w) = Inr [?pr]"
    using example_gitlab_prs(2) [where created = created and h = "[]"] by (simp add: w)
  have 10: "js_truthy (url ?pr)" by (simp add: js_truthy_def)
  from prCreate_existing
          [OF example_gitlab_getDriver 1 2 3 4 5 6 7 8 9 example_gitlab_found 10, of num]
  show ?thesis by (simp add: renderPr_def default_opts_def)
qed

text \<open>
  C1. The GitLab driver, the source branch on the remote, and the platform listing the
  open merge request of that branch into the target branch as the REST API words it:
  \<open>{web_url, source_branch, target_branch}\<close>. \<open>Gitlab.prs\<close> reads the address off the key
  \<open>webUrl\<close>, so the entry it yields has the two branches and no url; the search of
  \<open>prCreate\<close> finds that entry, and since its url is \<open>undefined\<close> the run goes on to
  \<open>driver.prCreate\<close>. Whatever the platform answers to the creating request (\<open>created\<close>),
  the first run is that request and its outcome, and a second run right after it makes
  the request again: after both runs the history holds two requests to create a merge
  request for the one commit, and neither run returns the address of the merge request
  that was found (a platform that refuses the duplicate makes both runs fail). Were the
  address under the key \<open>webUrl\<close>, the same run would return it and request nothing.
\<close>

theorem C1_prCreate_creates_again:
  "fst (driver_prs example_gitlab_driver (example_gitlab_world ''web_url'' created))
     = Inr [\<lparr>url = None, source = Some (JString ''main-cml-pr-abcdef12''),
             target = Some (JString ''main'')\<rparr>]
   \<and> find (pr_matches num ''main-cml-pr-abcdef12'' ''main'')
        [\<lparr>url = None, source = Some (JString ''main-cml-pr-abcdef12''),
          target = Some (JString ''main'')\<rparr>]
       = Some \<lparr>url = None, source = Some (JString ''main-cml-pr-abcdef12''),
               target = Some (JString ''main'')\<rparr>
   \<and> prCreate num example_gitlab_cml default_opts (example_gitlab_world ''web_url'' created)
       = ((case created of Inl e \<Rightarrow> Inl e | Inr data \<Rightarrow> js_prop data ''webUrl''),
          (example_gitlab_world ''web_url'' created)\<lparr>history :=
             [DriverPrCreate example_gitlab_driver example_mr_opts]\<rparr>)
   \<and> prCreate num example_gitlab_cml default_opts
        (snd (prCreate num example_gitlab_cml default_opts
                (example_gitlab_world ''web_url'' created)))
       = ((case created of Inl e \<Rightarrow> Inl e | Inr data \<Rightarrow> js_prop data ''webUrl''),
          (example_gitlab_world ''web_url'' created)\<lparr>history :=
             [DriverPrCreate example_gitlab_driver example_mr_opts,
              DriverPrCreate example_gitlab_driver example_mr_opts]\<rparr>)
   \<and> fst (prCreate num example_gitlab_cml default_opts
            (example_gitlab_world ''web_url'' (Inl (Error ''Conflict''))))
       = Inl (Error ''Conflict'')
   \<and> fst (prCreate num example_gitlab_cml default_opts
            (example_gitlab_world ''web_url''
               (Inr (JObject [(''web_url'', JString
                  ''https://gitlab.example.com/gitlab/group/project/-/merge_requests/8'')]))))
       = Inr None
   \<and> prCreate num example_gitlab_cml default_opts (example_gitlab_world ''webUrl'' created)
       = (Inr (Some (JString
                ''https://gitlab.example.com/gitlab/group/project/-/merge_requests/7'')),
          example_gitlab_world ''webUrl'' created)"
proof -
  have w: "(example_gitlab_world ''web_url'' c)\<lparr>history := []\<rparr> = example_gitlab_world ''web_url'' c"
    for c
    by (simp add: example_gitlab_world_def)
  have s: "source_branch ''main'' ''abcdef1234'' = ''main-cml-pr-abcdef12''"
    by (simp add: source_branch_def shaShort_take)
  have 1: "fst (driver_prs example_gitlab_driver (example_gitlab_world ''web_url'' created))
     = Inr [\<lparr>url = None, source = Some (JString ''main-cml-pr-abcdef12''),
             target = Some (JString ''main'')\<rparr>]"
    using example_gitlab_prs(1) [where created = created and h = "[]"] by (simp add: w)
  have 2: "find (pr_matches num ''main-cml-pr-abcdef12'' ''main'')
        [\<lparr>url = None, source = Some (JString ''main-cml-pr-abcdef12''),
          target = Some (JString ''main'')\<rparr>]
       = Some \<lparr>url = None, source = Some (JString ''main-cml-pr-abcdef12''),
               target = Some (JString ''main'')\<rparr>"
    using example_gitlab_found [of num None] by (simp add: s)
  have r: "prCreate num example_gitlab_cml default_opts (example_gitlab_world ''web_url'' c)
       = ((case c of Inl e \<Rightarrow> Inl e | Inr data \<Rightarrow> js_prop data ''webUrl''),
          (example_gitlab_world ''web_url'' c)\<lparr>history :=
             [DriverPrCreate example_gitlab_driver example_mr_opts]\<rparr>)" for c
    using example_gitlab_run [where num = num and created = c and h = "[]"] by (simp add: w)
  have 4: "prCreate num example_gitlab_cml default_opts
        (snd (prCreate num example_gitlab_cml default_opts
                (example_gitlab_world ''web_url'' created)))
       = ((case created of Inl e \<Rightarrow> Inl e | Inr data \<Rightarrow> js_prop data ''webUrl''),
          (example_gitlab_world ''web_url'' created)\<lparr>history :=
             [DriverPrCreate example_gitlab_driver example_mr_opts,
              DriverPrCreate example_gitlab_driver example_mr_opts]\<rparr>)"
    using example_gitlab_run
            [where num = num and created = created
               and h = "[DriverPrCreate example_gitlab_driver example_mr_opts]"]
    by (simp add: r)
  have 5: "fst (prCreate num example_gitlab_cml default_opts
            (example_gitlab_world ''web_url'' (Inl (Error ''Conflict''))))
       = Inl (Error ''Conflict'')"
    by (simp add: r)
  have 6: "fst (prCreate num example_gitlab_cml default_opts
            (example_gitlab_world ''web_url''
               (Inr (JObject [(''web_url'', JString
                  ''https://gitlab.example.com/gitlab/group/project/-/merge_requests/8'')]))))
       = Inr None"
    by (simp add: r js_prop_def)
  from 1 2 r [of created] 4 5 6 example_gitlab_reuse [of num created] show ?thesis
    by blast
qed

end
